theory Spec2Isabelle
  imports Complex_Main
begin

section \<open>Minkowski/Cartesian coordinates of a mesh block\<close>

text \<open>
  A shallow embedding of \<^verbatim>\<open>src/coordinates/minkowski_cartesian.cpp\<close>: the constructor
  \<^verbatim>\<open>Coordinates::Coordinates\<close> and the queries \<^verbatim>\<open>Area1Face\<close>, \<^verbatim>\<open>Area2Face\<close>,
  \<^verbatim>\<open>Area3Face\<close>, \<^verbatim>\<open>CellVolume\<close> and \<^verbatim>\<open>CoordinateSourceTerms\<close>.

  The element type \<^verbatim>\<open>Real\<close> is a macro of \<^verbatim>\<open>athena.hpp\<close>, which is not part of the
  sources at hand. The definitions therefore take the element type as a type parameter
  \<open>'r\<close> and ask of it only the operations the code applies (\<open>*\<close>, \<open>+\<close>, \<open>-\<close> and the
  literal \<open>0.5\<close>), with no algebraic law. Theorems stated for \<open>'r\<close> hold for every
  arithmetic, rounding or not; the few statements that need laws of arithmetic are stated
  over \<^typ>\<open>real\<close>. Indices are C++ \<^verbatim>\<open>int\<close>s, modelled as \<^typ>\<open>int\<close>. Signed overflow
  is undefined in C++; the statements about the constructor assume that the index bounds
  it computes stay in the range of a 32-bit \<^verbatim>\<open>int\<close> (\<open>no_overflow\<close> below). Inside the
  loops an index that is in bounds of an allocated array cannot overflow.
\<close>

subsection \<open>Arrays and the store\<close>

text \<open>
  The code works on arrays that it reaches through references: the twelve coordinate
  arrays of the block (\<^verbatim>\<open>pb->x1f\<close>, ..., \<^verbatim>\<open>pb->dx3v\<close>), the two scratch arrays of the
  \<^verbatim>\<open>Coordinates\<close> object, and the arrays the caller passes to a query by reference. An
  array reference is a value of \<open>aref\<close>; the store maps each reference to the current
  contents of its array. Two references are the same array exactly when they are equal,
  so a caller that passes one of the block's arrays as output buffer is within the model.
\<close>

datatype aref =
    x1f | x2f | x3f | dx1f | dx2f | dx3f
  | x1v | x2v | x3v | dx1v | dx2v | dx3v
  | face_area | cell_volume
  | caller nat

type_synonym 'r store = "aref \<Rightarrow> 'r list"

text \<open>
  Modelled from the spec: \<^verbatim>\<open>AthenaArray\<close> is declared in \<^verbatim>\<open>athena_arrays.hpp\<close>, which is
  missing. The spec speaks of allocated buffers with valid index bounds that a call must
  not leave. An array is a list, indexed from \<open>0\<close>; \<^verbatim>\<open>a(n)\<close> with \<open>n\<close> outside the
  allocation is undefined in C++, and the model stops there with the fault
  \<open>OutOfBounds\<close>. The code itself has no bounds check and no other failure path.
\<close>

datatype fault = OutOfBounds | BadLength

definition bindF :: "fault + 'a \<Rightarrow> ('a \<Rightarrow> fault + 'b) \<Rightarrow> fault + 'b" where
  "bindF m f = (case m of Inl e \<Rightarrow> Inl e | Inr v \<Rightarrow> f v)"

definition in_bounds :: "'r store \<Rightarrow> aref \<Rightarrow> int \<Rightarrow> bool" where
  "in_bounds h a n = (0 \<le> n \<and> n < int (length (h a)))"

definition rd :: "'r store \<Rightarrow> aref \<Rightarrow> int \<Rightarrow> fault + 'r" where
  "rd h a n = (if in_bounds h a n then Inr (h a ! nat n) else Inl OutOfBounds)"

definition wr :: "'r store \<Rightarrow> aref \<Rightarrow> int \<Rightarrow> 'r \<Rightarrow> fault + 'r store" where
  "wr h a n v =
     (if in_bounds h a n then Inr (h(a := (h a)[nat n := v])) else Inl OutOfBounds)"

text \<open>
  Modelled from the spec: \<^verbatim>\<open>NewAthenaArray\<close> is defined in the missing
  \<^verbatim>\<open>athena_arrays.hpp\<close>; the spec says it allocates a buffer of the given number of
  cells. The contents of a fresh allocation are not fixed by the code, so they are the
  parameter \<open>junk\<close>; a negative length is a fault.
\<close>

definition NewAthenaArray :: "(nat \<Rightarrow> 'r) \<Rightarrow> aref \<Rightarrow> int \<Rightarrow> 'r store \<Rightarrow> fault + 'r store" where
  "NewAthenaArray junk a n h =
     (if n < 0 then Inl BadLength else Inr (h(a := map junk [0..<nat n])))"

subsection \<open>The loop \<^verbatim>\<open>for (int i = il; i <= iu; i++)\<close>\<close>

function for_loop :: "int \<Rightarrow> int \<Rightarrow> (int \<Rightarrow> 's \<Rightarrow> fault + 's) \<Rightarrow> 's \<Rightarrow> fault + 's" where
  "for_loop i iu body s =
     (if i \<le> iu
      then (case body i s of Inl e \<Rightarrow> Inl e | Inr s' \<Rightarrow> for_loop (i + 1) iu body s')
      else Inr s)"
  by pat_completeness auto
termination
  by (relation "measure (\<lambda>(i, iu, body, s). nat (iu + 1 - i))") auto

declare for_loop.simps [simp del]

subsection \<open>The block and the constructor\<close>

text \<open>
  The integer members of \<^verbatim>\<open>Block\<close> that the constructor reads: the interior index
  bounds and \<^verbatim>\<open>block_size.nx1\<close>, \<^verbatim>\<open>nx2\<close>, \<^verbatim>\<open>nx3\<close>. (\<^verbatim>\<open>is\<close> is written \<open>is'\<close>.)
  The array members of the block live in the store.
\<close>

record Block =
  is' :: int
  ie :: int
  js :: int
  je :: int
  ks :: int
  ke :: int
  nx1 :: int
  nx2 :: int
  nx3 :: int

text \<open>
  The two loops of an axis with extent (lines 23--26, 36--39 and 50--53), over the
  arrays \<open>xf\<close>, \<open>xv\<close>, \<open>dxv\<close> of that axis, from \<open>lo = s - NGHOST\<close> to
  \<open>hi = e + NGHOST\<close> and to \<open>hi - 1\<close>:
  \<^verbatim>\<open>xv(i) = 0.5 * (xf(i) + xf(i+1))\<close>, then \<^verbatim>\<open>dxv(i) = xv(i+1) - xv(i)\<close>.
\<close>

definition extended ::
  "aref \<Rightarrow> aref \<Rightarrow> aref \<Rightarrow> int \<Rightarrow> int \<Rightarrow> ('r::{plus,minus,times,inverse,numeral}) store
   \<Rightarrow> fault + 'r store" where
  "extended xf xv dxv lo hi h =
     bindF (for_loop lo hi
              (\<lambda>i h. bindF (rd h xf i) (\<lambda>a. bindF (rd h xf (i + 1)) (\<lambda>b.
                       wr h xv i (0.5 * (a + b))))) h)
       (for_loop lo (hi - 1)
              (\<lambda>i h. bindF (rd h xv (i + 1)) (\<lambda>a. bindF (rd h xv i) (\<lambda>b.
                       wr h dxv i (a - b)))))"

text \<open>
  The branch of an axis without extent (lines 31--32 and 45--46):
  \<^verbatim>\<open>xv(s) = 0.5 * (xf(s) + xf(s+1)); dxv(s) = dxf(s);\<close>
\<close>

definition no_extent ::
  "aref \<Rightarrow> aref \<Rightarrow> aref \<Rightarrow> aref \<Rightarrow> int \<Rightarrow> ('r::{plus,minus,times,inverse,numeral}) store
   \<Rightarrow> fault + 'r store" where
  "no_extent xf dxf xv dxv s h =
     bindF (bindF (rd h xf s) (\<lambda>a. bindF (rd h xf (s + 1)) (\<lambda>b. wr h xv s (0.5 * (a + b)))))
       (\<lambda>h. bindF (rd h dxf s) (\<lambda>d. wr h dxv s d))"

text \<open>
  The constructor. \<open>NGHOST\<close> is a macro of the missing \<^verbatim>\<open>athena.hpp\<close> and so a
  parameter. Axis 1 has no branch on \<^verbatim>\<open>nx1\<close>. The assignment
  \<^verbatim>\<open>pparent_block = pb\<close> has no counterpart: the model has the one block whose arrays the
  references \<open>x1f\<close>, ..., \<open>dx3v\<close> name, and \<^verbatim>\<open>pparent_block->dx2f\<close> is \<open>dx2f\<close>.
\<close>

definition Coordinates ::
  "int \<Rightarrow> (nat \<Rightarrow> 'r) \<Rightarrow> Block \<Rightarrow> ('r::{plus,minus,times,inverse,numeral}) store
   \<Rightarrow> fault + 'r store" where
  "Coordinates NGHOST junk pb h =
     bindF (extended x1f x1v dx1v (is' pb - NGHOST) (ie pb + NGHOST) h) (\<lambda>h.
     bindF (if nx2 pb = 1 then no_extent x2f dx2f x2v dx2v (js pb) h
            else extended x2f x2v dx2v (js pb - NGHOST) (je pb + NGHOST) h) (\<lambda>h.
     bindF (if nx3 pb = 1 then no_extent x3f dx3f x3v dx3v (ks pb) h
            else extended x3f x3v dx3v (ks pb - NGHOST) (ke pb + NGHOST) h) (\<lambda>h.
     bindF (NewAthenaArray junk face_area (nx1 pb + 2 * NGHOST) h) (\<lambda>h.
     NewAthenaArray junk cell_volume (nx1 pb + 2 * NGHOST) h))))"

subsection \<open>The queries\<close>

text \<open>
  \<^verbatim>\<open>Real &delta_y = pparent_block->dx2f(j)\<close> binds a reference: the element must exist
  when the reference is bound, and each use of \<^verbatim>\<open>delta_y\<close> reads the array as it is
  then. The output array \<open>areas\<close> is passed by reference.
\<close>

definition Area1Face ::
  "int \<Rightarrow> int \<Rightarrow> int \<Rightarrow> int \<Rightarrow> aref \<Rightarrow> ('r::times) store \<Rightarrow> fault + 'r store" where
  "Area1Face k j il iu areas h =
     bindF (rd h dx2f j) (\<lambda>_. bindF (rd h dx3f k) (\<lambda>_.
       for_loop il iu
         (\<lambda>i h. bindF (rd h dx2f j) (\<lambda>delta_y. bindF (rd h dx3f k) (\<lambda>delta_z.
                  wr h areas i (delta_y * delta_z)))) h))"

definition Area2Face ::
  "int \<Rightarrow> int \<Rightarrow> int \<Rightarrow> int \<Rightarrow> aref \<Rightarrow> ('r::times) store \<Rightarrow> fault + 'r store" where
  "Area2Face k j il iu areas h =
     bindF (rd h dx3f k) (\<lambda>_.
       for_loop il iu
         (\<lambda>i h. bindF (rd h dx1f i) (\<lambda>delta_x. bindF (rd h dx3f k) (\<lambda>delta_z.
                  wr h areas i (delta_x * delta_z)))) h)"

definition Area3Face ::
  "int \<Rightarrow> int \<Rightarrow> int \<Rightarrow> int \<Rightarrow> aref \<Rightarrow> ('r::times) store \<Rightarrow> fault + 'r store" where
  "Area3Face k j il iu areas h =
     bindF (rd h dx2f j) (\<lambda>_.
       for_loop il iu
         (\<lambda>i h. bindF (rd h dx1f i) (\<lambda>delta_x. bindF (rd h dx2f j) (\<lambda>delta_y.
                  wr h areas i (delta_x * delta_y)))) h)"

definition CellVolume ::
  "int \<Rightarrow> int \<Rightarrow> int \<Rightarrow> int \<Rightarrow> aref \<Rightarrow> ('r::times) store \<Rightarrow> fault + 'r store" where
  "CellVolume k j il iu volumes h =
     bindF (rd h dx2f j) (\<lambda>_. bindF (rd h dx3f k) (\<lambda>_.
       for_loop il iu
         (\<lambda>i h. bindF (rd h dx1f i) (\<lambda>delta_x. bindF (rd h dx2f j) (\<lambda>delta_y.
                  bindF (rd h dx3f k) (\<lambda>delta_z.
                  wr h volumes i (delta_x * delta_y * delta_z))))) h))"

definition CoordinateSourceTerms ::
  "int \<Rightarrow> int \<Rightarrow> aref \<Rightarrow> aref \<Rightarrow> 'r store \<Rightarrow> fault + 'r store" where
  "CoordinateSourceTerms k j prim sources h = Inr h"

subsection \<open>Vocabulary of the statements\<close>

text \<open>
  \<open>fill g lo hi xs\<close> is the array \<open>xs\<close> with \<open>g i\<close> at every allocated index \<open>i\<close> of the
  inclusive range from \<open>lo\<close> to \<open>hi\<close>, and the old entry everywhere else.
\<close>

definition fill :: "(int \<Rightarrow> 'r) \<Rightarrow> int \<Rightarrow> int \<Rightarrow> 'r list \<Rightarrow> 'r list" where
  "fill g lo hi xs =
     map (\<lambda>n. if lo \<le> int n \<and> int n \<le> hi then g (int n) else xs ! n) [0..<length xs]"

text \<open>
  \<open>only_range a lo hi h h'\<close>: the stores \<open>h\<close> and \<open>h'\<close> differ at most in the entries
  of array \<open>a\<close> at the indices from \<open>lo\<close> to \<open>hi\<close>.
\<close>

definition only_range :: "aref \<Rightarrow> int \<Rightarrow> int \<Rightarrow> 'r store \<Rightarrow> 'r store \<Rightarrow> bool" where
  "only_range a lo hi h h' =
     ((\<forall>b. b \<noteq> a \<longrightarrow> h' b = h b) \<and> length (h' a) = length (h a) \<and>
      (\<forall>n<length (h a). \<not> (lo \<le> int n \<and> int n \<le> hi) \<longrightarrow> h' a ! n = h a ! n))"

text \<open>
  The concrete scenario of the specification: a block with faces at \<open>0, 1, 2, 3, 4\<close>
  along axis 1, one cell of width \<open>2\<close> along axis 2 and one of width \<open>3\<close> along axis 3,
  no ghost cells, and two caller-allocated buffers of four cells.
\<close>

definition scenario :: "real store" where
  "scenario = (\<lambda>_. [])
     (x1f := [0, 1, 2, 3, 4], x2f := [0, 2], x3f := [0, 3],
      dx1f := [1, 1, 1, 1], dx2f := [2], dx3f := [3],
      x1v := [0, 0, 0, 0], x2v := [0], x3v := [0],
      dx1v := [0, 0, 0, 0], dx2v := [0], dx3v := [0],
      caller 0 := [0, 0, 0, 0], caller 1 := [7, 7, 7, 7])"

definition scenario_block :: Block where
  "scenario_block =
     \<lparr>is' = 0, ie = 3, js = 0, je = 0, ks = 0, ke = 0, nx1 = 4, nx2 = 1, nx3 = 1\<rparr>"

text \<open>
  The values the constructor stores: the midpoint of two adjacent faces and the
  difference of two adjacent centres, with the operations in the order of the code.
\<close>

definition midpoints :: "('r::{plus,minus,times,inverse,numeral}) list \<Rightarrow> int \<Rightarrow> 'r" where
  "midpoints xf i = 0.5 * (xf ! nat i + xf ! nat (i + 1))"

definition differences :: "('r::minus) list \<Rightarrow> int \<Rightarrow> 'r" where
  "differences xv i = xv ! nat (i + 1) - xv ! nat i"

text \<open>
  The allocations the constructor relies on. For an axis with extent and a non-empty
  range from \<open>lo\<close> to \<open>hi\<close>, the faces \<open>lo\<close> to \<open>hi + 1\<close>, the centres \<open>lo\<close> to \<open>hi\<close> and
  the spacings \<open>lo\<close> to \<open>hi - 1\<close> are allocated; for an axis without extent, the two
  faces, the centre, the face spacing and the centre spacing at \<open>s\<close>.
\<close>

definition extended_ok :: "'r store \<Rightarrow> aref \<Rightarrow> aref \<Rightarrow> aref \<Rightarrow> int \<Rightarrow> int \<Rightarrow> bool" where
  "extended_ok h xf xv dxv lo hi =
     ((lo \<le> hi \<longrightarrow> 0 \<le> lo \<and> hi + 1 < int (length (h xf)) \<and> hi < int (length (h xv))) \<and>
      (lo \<le> hi - 1 \<longrightarrow> hi - 1 < int (length (h dxv))))"

definition no_extent_ok :: "'r store \<Rightarrow> aref \<Rightarrow> aref \<Rightarrow> aref \<Rightarrow> aref \<Rightarrow> int \<Rightarrow> bool" where
  "no_extent_ok h xf dxf xv dxv s =
     (in_bounds h xf s \<and> in_bounds h xf (s + 1) \<and> in_bounds h xv s \<and>
      in_bounds h dxf s \<and> in_bounds h dxv s)"

text \<open>
  The integers the constructor computes from the members of the block are in the range of
  a 32-bit \<^verbatim>\<open>int\<close>.
\<close>

definition int_ok :: "int \<Rightarrow> bool" where
  "int_ok n = (- 2147483648 \<le> n \<and> n \<le> 2147483647)"

definition no_overflow :: "int \<Rightarrow> Block \<Rightarrow> bool" where
  "no_overflow NGHOST pb =
     (int_ok (is' pb - NGHOST) \<and> int_ok (ie pb + NGHOST) \<and> int_ok (ie pb + NGHOST - 1) \<and>
      int_ok (js pb - NGHOST) \<and> int_ok (je pb + NGHOST) \<and> int_ok (je pb + NGHOST - 1) \<and>
      int_ok (js pb + 1) \<and>
      int_ok (ks pb - NGHOST) \<and> int_ok (ke pb + NGHOST) \<and> int_ok (ke pb + NGHOST - 1) \<and>
      int_ok (ks pb + 1) \<and>
      int_ok (2 * NGHOST) \<and> int_ok (nx1 pb + 2 * NGHOST))"

text \<open>
  \<open>populated NGHOST pb h\<close>: the arrays of the block are allocated over the interior
  and the ghost margins, as far as the constructor touches them, the length of the
  scratch arrays is not negative, and no index bound overflows.
\<close>

definition populated :: "int \<Rightarrow> Block \<Rightarrow> 'r store \<Rightarrow> bool" where
  "populated NGHOST pb h =
     (extended_ok h x1f x1v dx1v (is' pb - NGHOST) (ie pb + NGHOST) \<and>
      (if nx2 pb = 1 then no_extent_ok h x2f dx2f x2v dx2v (js pb)
       else extended_ok h x2f x2v dx2v (js pb - NGHOST) (je pb + NGHOST)) \<and>
      (if nx3 pb = 1 then no_extent_ok h x3f dx3f x3v dx3v (ks pb)
       else extended_ok h x3f x3v dx3v (ks pb - NGHOST) (ke pb + NGHOST)) \<and>
      0 \<le> nx1 pb + 2 * NGHOST \<and> no_overflow NGHOST pb)"

text \<open>The store after each part of the constructor, in closed form.\<close>

definition after_extended ::
  "aref \<Rightarrow> aref \<Rightarrow> aref \<Rightarrow> int \<Rightarrow> int \<Rightarrow> ('r::{plus,minus,times,inverse,numeral}) store
   \<Rightarrow> 'r store" where
  "after_extended xf xv dxv lo hi h =
     h(xv := fill (midpoints (h xf)) lo hi (h xv),
       dxv := fill (differences (fill (midpoints (h xf)) lo hi (h xv))) lo (hi - 1) (h dxv))"

definition after_no_extent ::
  "aref \<Rightarrow> aref \<Rightarrow> aref \<Rightarrow> aref \<Rightarrow> int \<Rightarrow> ('r::{plus,minus,times,inverse,numeral}) store
   \<Rightarrow> 'r store" where
  "after_no_extent xf dxf xv dxv s h =
     h(xv := (h xv)[nat s := midpoints (h xf) s], dxv := (h dxv)[nat s := h dxf ! nat s])"

definition after_Coordinates ::
  "int \<Rightarrow> (nat \<Rightarrow> 'r) \<Rightarrow> Block \<Rightarrow> ('r::{plus,minus,times,inverse,numeral}) store \<Rightarrow> 'r store" where
  "after_Coordinates NGHOST junk pb h =
     (let h1 = after_extended x1f x1v dx1v (is' pb - NGHOST) (ie pb + NGHOST) h;
          h2 = (if nx2 pb = 1 then after_no_extent x2f dx2f x2v dx2v (js pb) h1
                else after_extended x2f x2v dx2v (js pb - NGHOST) (je pb + NGHOST) h1);
          h3 = (if nx3 pb = 1 then after_no_extent x3f dx3f x3v dx3v (ks pb) h2
                else after_extended x3f x3v dx3v (ks pb - NGHOST) (ke pb + NGHOST) h2)
      in h3(face_area := map junk [0..<nat (nx1 pb + 2 * NGHOST)],
            cell_volume := map junk [0..<nat (nx1 pb + 2 * NGHOST)]))"

text \<open>
  A block with two interior cells and one ghost cell on each side along every axis, with
  face spacings \<open>1\<close>, \<open>2\<close> and \<open>3\<close>.
\<close>

definition cube :: "real store" where
  "cube = (\<lambda>_. [])
     (x1f := [0, 1, 2, 3, 4], x2f := [0, 2, 4, 6, 8], x3f := [0, 3, 6, 9, 12],
      dx1f := [1, 1, 1, 1], dx2f := [2, 2, 2, 2], dx3f := [3, 3, 3, 3],
      x1v := [0, 0, 0, 0], x2v := [0, 0, 0, 0], x3v := [0, 0, 0, 0],
      dx1v := [0, 0, 0, 0], dx2v := [0, 0, 0, 0], dx3v := [0, 0, 0, 0])"

definition cube_block :: Block where
  "cube_block =
     \<lparr>is' = 1, ie = 2, js = 1, je = 2, ks = 1, ke = 2, nx1 = 2, nx2 = 2, nx3 = 2\<rparr>"

text \<open>
  A block with a single interior cell along every axis and one ghost cell on each side
  along axis 1, whose faces along axis 1 are not evenly spaced.
\<close>

definition thin :: "real store" where
  "thin = (\<lambda>_. [])
     (x1f := [0, 1, 3, 6], x2f := [0, 2], x3f := [0, 3],
      dx1f := [1, 2, 3], dx2f := [2], dx3f := [3],
      x1v := [0, 0, 0], x2v := [0], x3v := [0],
      dx1v := [0, 0, 0], dx2v := [0], dx3v := [0])"

definition thin_block :: Block where
  "thin_block =
     \<lparr>is' = 1, ie = 1, js = 0, je = 0, ks = 0, ke = 0, nx1 = 1, nx2 = 1, nx3 = 1\<rparr>"

text \<open>
  A block whose index bounds are inverted along every axis, and a store in which no
  array is allocated.
\<close>

definition inverted_block :: Block where
  "inverted_block =
     \<lparr>is' = 3, ie = 0, js = 3, je = 0, ks = 3, ke = 0, nx1 = 4, nx2 = 4, nx3 = 4\<rparr>"

definition unallocated :: "real store" where
  "unallocated = (\<lambda>_. [])"

text \<open>
  The sum of the centre spacings \<open>dxv(i)\<close> for \<open>i\<close> from the first interior index \<open>s\<close> to
  one before the last interior index \<open>e\<close>.
\<close>

definition interior_sum :: "aref \<Rightarrow> int \<Rightarrow> int \<Rightarrow> real store \<Rightarrow> real" where
  "interior_sum dxv s e h = sum_list (map (\<lambda>i. h dxv ! nat i) [s..e - 1])"

section \<open>Loops\<close>

lemma bindF_Inr [simp]: "bindF (Inr v) f = f v"
  by (simp add: bindF_def)

lemma bindF_Inl [simp]: "bindF (Inl e) f = Inl e"
  by (simp add: bindF_def)

lemma bindF_eq_Inr: "bindF m f = Inr y \<longleftrightarrow> (\<exists>v. m = Inr v \<and> f v = Inr y)"
  by (cases m) simp_all

lemma rd_in_bounds: "in_bounds h a n \<Longrightarrow> rd h a n = Inr (h a ! nat n)"
  by (simp add: rd_def)

lemma wr_in_bounds: "in_bounds h a n \<Longrightarrow> wr h a n v = Inr (h(a := (h a)[nat n := v]))"
  by (simp add: wr_def)

lemma length_fill [simp]: "length (fill g lo hi xs) = length xs"
  by (simp add: fill_def)

lemma nth_fill:
  "n < length xs \<Longrightarrow>
   fill g lo hi xs ! n = (if lo \<le> int n \<and> int n \<le> hi then g (int n) else xs ! n)"
  by (simp add: fill_def)

lemma nth_fill_int:
  "0 \<le> i \<Longrightarrow> i < int (length xs) \<Longrightarrow>
   fill g lo hi xs ! nat i = (if lo \<le> i \<and> i \<le> hi then g i else xs ! nat i)"
  by (simp add: nth_fill)

lemma fill_empty: "hi < lo \<Longrightarrow> fill g lo hi xs = xs"
  by (rule nth_equalityI) (auto simp: nth_fill)

lemma fill_snoc:
  assumes "lo \<le> k" "0 \<le> k"
  shows "(fill g lo (k - 1) xs)[nat k := g k] = fill g lo k xs"
proof (rule nth_equalityI)
  fix n assume "n < length ((fill g lo (k - 1) xs)[nat k := g k])"
  then have n: "n < length xs" by simp
  show "(fill g lo (k - 1) xs)[nat k := g k] ! n = fill g lo k xs ! n"
  proof (cases "n = nat k")
    case True
    with n assms show ?thesis by (simp add: nth_fill)
  next
    case False
    with assms have "int n \<noteq> k" by auto
    with n False show ?thesis by (auto simp: nth_fill)
  qed
qed simp

lemma for_loop_empty: "iu < i \<Longrightarrow> for_loop i iu body s = Inr s"
  by (simp add: for_loop.simps)

lemma for_loop_snoc:
  "i \<le> iu + 1 \<Longrightarrow> for_loop i (iu + 1) body s = bindF (for_loop i iu body s) (body (iu + 1))"
proof (induction i iu body s rule: for_loop.induct)
  case (1 i iu body s)
  show ?case
  proof (cases "i \<le> iu")
    case True
    show ?thesis
    proof (cases "body i s")
      case (Inl e)
      with True show ?thesis
        by (simp add: for_loop.simps [of i])
    next
      case (Inr s')
      with True "1.IH" [OF True Inr] show ?thesis
        by (simp add: for_loop.simps [of i])
    qed
  next
    case False
    with "1.prems" have "i = iu + 1" by simp
    then show ?thesis
      by (simp add: for_loop.simps [of "iu + 1"] for_loop_empty bindF_def split: sum.splits)
  qed
qed

text \<open>
  A loop whose body at \<open>i\<close> stores \<open>g i\<close> into \<open>a(i)\<close>, where \<open>g i\<close> does not depend on
  what the loop has written, fills the range, provided the range is allocated.
\<close>

lemma for_loop_fill_aux:
  assumes body: "\<And>i h'. lo \<le> i \<Longrightarrow> i \<le> lo + int n - 1 \<Longrightarrow> (\<forall>b. b \<noteq> a \<longrightarrow> h' b = h b) \<Longrightarrow>
                   length (h' a) = length (h a) \<Longrightarrow> body i h' = wr h' a i (g i)"
    and bnd: "0 < n \<Longrightarrow> 0 \<le> lo \<and> lo + int n - 1 < int (length (h a))"
  shows "for_loop lo (lo + int n - 1) body h = Inr (h(a := fill g lo (lo + int n - 1) (h a)))"
  using assms
proof (induction n)
  case 0
  then show ?case by (simp add: for_loop_empty fill_empty)
next
  case (Suc n)
  let ?hi = "lo + int n - 1"
  let ?hc = "h(a := fill g lo ?hi (h a))"
  have eq: "lo + int (Suc n) - 1 = ?hi + 1" by simp
  have inb: "0 \<le> lo" "?hi + 1 < int (length (h a))" using Suc.prems(2) by auto
  have IH: "for_loop lo ?hi body h = Inr ?hc"
  proof (rule Suc.IH)
    fix i h'
    assume "lo \<le> i" "i \<le> ?hi" "\<forall>b. b \<noteq> a \<longrightarrow> h' b = h b" "length (h' a) = length (h a)"
    then show "body i h' = wr h' a i (g i)" using Suc.prems(1) [of i h'] by simp
  next
    assume "0 < n" then show "0 \<le> lo \<and> ?hi < int (length (h a))" using inb by simp
  qed
  have "body (?hi + 1) ?hc = wr ?hc a (?hi + 1) (g (?hi + 1))"
    by (rule Suc.prems(1)) simp_all
  also have "\<dots> = Inr (h(a := fill g lo (?hi + 1) (h a)))"
    using inb fill_snoc [of lo "?hi + 1" g "h a"] by (simp add: wr_def in_bounds_def)
  finally have step: "body (?hi + 1) ?hc = Inr (h(a := fill g lo (?hi + 1) (h a)))" .
  have "for_loop lo (?hi + 1) body h = bindF (for_loop lo ?hi body h) (body (?hi + 1))"
    by (rule for_loop_snoc) simp
  also have "\<dots> = body (?hi + 1) ?hc"
    by (simp only: IH bindF_Inr)
  finally have "for_loop lo (?hi + 1) body h = Inr (h(a := fill g lo (?hi + 1) (h a)))"
    by (simp only: step)
  then show ?case by (simp only: eq)
qed

lemma for_loop_fill:
  assumes body: "\<And>i h'. lo \<le> i \<Longrightarrow> i \<le> hi \<Longrightarrow> (\<forall>b. b \<noteq> a \<longrightarrow> h' b = h b) \<Longrightarrow>
                   length (h' a) = length (h a) \<Longrightarrow> body i h' = wr h' a i (g i)"
    and bnd: "lo \<le> hi \<Longrightarrow> 0 \<le> lo \<and> hi < int (length (h a))"
  shows "for_loop lo hi body h = Inr (h(a := fill g lo hi (h a)))"
proof (cases "lo \<le> hi")
  case True
  define n where "n = nat (hi + 1 - lo)"
  have hi: "hi = lo + int n - 1" using True by (simp add: n_def)
  show ?thesis unfolding hi
  proof (rule for_loop_fill_aux)
    fix i h'
    assume "lo \<le> i" "i \<le> lo + int n - 1" "\<forall>b. b \<noteq> a \<longrightarrow> h' b = h b"
      "length (h' a) = length (h a)"
    then show "body i h' = wr h' a i (g i)" using body [of i h'] hi by simp
  next
    show "0 \<le> lo \<and> lo + int n - 1 < int (length (h a))" using bnd True hi by simp
  qed
next
  case False
  then show ?thesis by (simp add: for_loop_empty fill_empty)
qed

lemma only_range_refl: "only_range a lo hi h h"
  by (simp add: only_range_def)

lemma only_range_wr: "wr h a i v = Inr h' \<Longrightarrow> only_range a i i h h'"
  by (auto simp: wr_def only_range_def in_bounds_def split: if_splits)

lemma only_range_step:
  assumes "only_range a i i h h1" "only_range a (i + 1) iu h1 h'" "i \<le> iu"
  shows "only_range a i iu h h'"
proof -
  have off: "\<forall>b. b \<noteq> a \<longrightarrow> h' b = h b"
    using assms by (simp add: only_range_def)
  have len: "length (h' a) = length (h a)"
    using assms by (simp add: only_range_def)
  have len1: "length (h1 a) = length (h a)"
    using assms by (simp add: only_range_def)
  have "h' a ! n = h a ! n" if n: "n < length (h a)" and out: "\<not> (i \<le> int n \<and> int n \<le> iu)" for n
  proof -
    have a: "\<not> (i + 1 \<le> int n \<and> int n \<le> iu)" using out by auto
    have b: "\<not> (i \<le> int n \<and> int n \<le> i)" using out assms(3) by auto
    have "h' a ! n = h1 a ! n"
      using assms(2) a n len1 by (simp add: only_range_def)
    also have "\<dots> = h a ! n"
      using assms(1) b n by (simp add: only_range_def)
    finally show ?thesis .
  qed
  with off len show ?thesis by (simp add: only_range_def)
qed

lemma for_loop_only_range:
  assumes body: "\<And>i s s'. body i s = Inr s' \<Longrightarrow> only_range a i i s s'"
  shows "for_loop il iu body h = Inr h' \<Longrightarrow> only_range a il iu h h'"
  using body
proof (induction il iu body h rule: for_loop.induct)
  case (1 i iu body s)
  show ?case
  proof (cases "i \<le> iu")
    case True
    with "1.prems"(1) obtain s1 where s1: "body i s = Inr s1"
      and rest: "for_loop (i + 1) iu body s1 = Inr h'"
      by (auto simp: for_loop.simps [of i] split: sum.splits)
    have "only_range a (i + 1) iu s1 h'"
      using "1.IH" [OF True s1 rest "1.prems"(2)] .
    with "1.prems"(2) [OF s1] show ?thesis using True by (rule only_range_step)
  next
    case False
    with "1.prems"(1) have "h' = s" by (simp add: for_loop.simps [of i])
    then show ?thesis by (simp add: only_range_refl)
  qed
qed

section \<open>The queries\<close>

lemma range_bounds:
  "\<forall>i\<in>{il..iu}. in_bounds h a i \<Longrightarrow> il \<le> iu \<Longrightarrow> 0 \<le> il \<and> iu < int (length (h a))"
proof -
  assume a: "\<forall>i\<in>{il..iu}. in_bounds h a i" and le: "il \<le> iu"
  from a le have "in_bounds h a il" "in_bounds h a iu" by auto
  then show ?thesis by (simp add: in_bounds_def)
qed

lemma Area1Face_eq:
  assumes j: "in_bounds h dx2f j" and k: "in_bounds h dx3f k"
    and r: "\<forall>i\<in>{il..iu}. in_bounds h areas i"
    and na: "areas \<noteq> dx2f" "areas \<noteq> dx3f"
  shows "Area1Face k j il iu areas h =
         Inr (h(areas := fill (\<lambda>i. h dx2f ! nat j * h dx3f ! nat k) il iu (h areas)))"
proof -
  have "for_loop il iu
          (\<lambda>i h. bindF (rd h dx2f j) (\<lambda>delta_y. bindF (rd h dx3f k) (\<lambda>delta_z.
                   wr h areas i (delta_y * delta_z)))) h =
        Inr (h(areas := fill (\<lambda>i. h dx2f ! nat j * h dx3f ! nat k) il iu (h areas)))"
  proof (rule for_loop_fill)
    fix i h'
    assume off: "\<forall>b. b \<noteq> areas \<longrightarrow> h' b = h b"
    then have "rd h' dx2f j = Inr (h dx2f ! nat j)" "rd h' dx3f k = Inr (h dx3f ! nat k)"
      using j k na by (simp_all add: rd_def in_bounds_def)
    then show "bindF (rd h' dx2f j) (\<lambda>delta_y. bindF (rd h' dx3f k) (\<lambda>delta_z.
                 wr h' areas i (delta_y * delta_z))) =
               wr h' areas i (h dx2f ! nat j * h dx3f ! nat k)"
      by simp
  next
    assume "il \<le> iu" with r show "0 \<le> il \<and> iu < int (length (h areas))"
      by (rule range_bounds)
  qed
  with j k show ?thesis by (simp add: Area1Face_def rd_in_bounds)
qed

lemma Area2Face_eq:
  assumes k: "in_bounds h dx3f k"
    and r: "\<forall>i\<in>{il..iu}. in_bounds h areas i \<and> in_bounds h dx1f i"
    and na: "areas \<noteq> dx1f" "areas \<noteq> dx3f"
  shows "Area2Face k j il iu areas h =
         Inr (h(areas := fill (\<lambda>i. h dx1f ! nat i * h dx3f ! nat k) il iu (h areas)))"
proof -
  have "for_loop il iu
          (\<lambda>i h. bindF (rd h dx1f i) (\<lambda>delta_x. bindF (rd h dx3f k) (\<lambda>delta_z.
                   wr h areas i (delta_x * delta_z)))) h =
        Inr (h(areas := fill (\<lambda>i. h dx1f ! nat i * h dx3f ! nat k) il iu (h areas)))"
  proof (rule for_loop_fill)
    fix i h'
    assume i: "il \<le> i" "i \<le> iu" and off: "\<forall>b. b \<noteq> areas \<longrightarrow> h' b = h b"
    from i r have "in_bounds h dx1f i" by simp
    with off have "rd h' dx1f i = Inr (h dx1f ! nat i)" "rd h' dx3f k = Inr (h dx3f ! nat k)"
      using k na by (simp_all add: rd_def in_bounds_def)
    then show "bindF (rd h' dx1f i) (\<lambda>delta_x. bindF (rd h' dx3f k) (\<lambda>delta_z.
                 wr h' areas i (delta_x * delta_z))) =
               wr h' areas i (h dx1f ! nat i * h dx3f ! nat k)"
      by simp
  next
    assume "il \<le> iu" with r show "0 \<le> il \<and> iu < int (length (h areas))"
      by (intro range_bounds) auto
  qed
  with k show ?thesis by (simp add: Area2Face_def rd_in_bounds)
qed

lemma Area3Face_eq:
  assumes j: "in_bounds h dx2f j"
    and r: "\<forall>i\<in>{il..iu}. in_bounds h areas i \<and> in_bounds h dx1f i"
    and na: "areas \<noteq> dx1f" "areas \<noteq> dx2f"
  shows "Area3Face k j il iu areas h =
         Inr (h(areas := fill (\<lambda>i. h dx1f ! nat i * h dx2f ! nat j) il iu (h areas)))"
proof -
  have "for_loop il iu
          (\<lambda>i h. bindF (rd h dx1f i) (\<lambda>delta_x. bindF (rd h dx2f j) (\<lambda>delta_y.
                   wr h areas i (delta_x * delta_y)))) h =
        Inr (h(areas := fill (\<lambda>i. h dx1f ! nat i * h dx2f ! nat j) il iu (h areas)))"
  proof (rule for_loop_fill)
    fix i h'
    assume i: "il \<le> i" "i \<le> iu" and off: "\<forall>b. b \<noteq> areas \<longrightarrow> h' b = h b"
    from i r have "in_bounds h dx1f i" by simp
    with off have "rd h' dx1f i = Inr (h dx1f ! nat i)" "rd h' dx2f j = Inr (h dx2f ! nat j)"
      using j na by (simp_all add: rd_def in_bounds_def)
    then show "bindF (rd h' dx1f i) (\<lambda>delta_x. bindF (rd h' dx2f j) (\<lambda>delta_y.
                 wr h' areas i (delta_x * delta_y))) =
               wr h' areas i (h dx1f ! nat i * h dx2f ! nat j)"
      by simp
  next
    assume "il \<le> iu" with r show "0 \<le> il \<and> iu < int (length (h areas))"
      by (intro range_bounds) auto
  qed
  with j show ?thesis by (simp add: Area3Face_def rd_in_bounds)
qed

lemma CellVolume_eq:
  assumes j: "in_bounds h dx2f j" and k: "in_bounds h dx3f k"
    and r: "\<forall>i\<in>{il..iu}. in_bounds h volumes i \<and> in_bounds h dx1f i"
    and na: "volumes \<noteq> dx1f" "volumes \<noteq> dx2f" "volumes \<noteq> dx3f"
  shows "CellVolume k j il iu volumes h =
         Inr (h(volumes :=
                  fill (\<lambda>i. h dx1f ! nat i * h dx2f ! nat j * h dx3f ! nat k) il iu (h volumes)))"
proof -
  have "for_loop il iu
          (\<lambda>i h. bindF (rd h dx1f i) (\<lambda>delta_x. bindF (rd h dx2f j) (\<lambda>delta_y.
                   bindF (rd h dx3f k) (\<lambda>delta_z.
                   wr h volumes i (delta_x * delta_y * delta_z))))) h =
        Inr (h(volumes :=
                 fill (\<lambda>i. h dx1f ! nat i * h dx2f ! nat j * h dx3f ! nat k) il iu (h volumes)))"
  proof (rule for_loop_fill)
    fix i h'
    assume i: "il \<le> i" "i \<le> iu" and off: "\<forall>b. b \<noteq> volumes \<longrightarrow> h' b = h b"
    from i r have "in_bounds h dx1f i" by simp
    with off have "rd h' dx1f i = Inr (h dx1f ! nat i)" "rd h' dx2f j = Inr (h dx2f ! nat j)"
      "rd h' dx3f k = Inr (h dx3f ! nat k)"
      using j k na by (simp_all add: rd_def in_bounds_def)
    then show "bindF (rd h' dx1f i) (\<lambda>delta_x. bindF (rd h' dx2f j) (\<lambda>delta_y.
                 bindF (rd h' dx3f k) (\<lambda>delta_z.
                 wr h' volumes i (delta_x * delta_y * delta_z)))) =
               wr h' volumes i (h dx1f ! nat i * h dx2f ! nat j * h dx3f ! nat k)"
      by simp
  next
    assume "il \<le> iu" with r show "0 \<le> il \<and> iu < int (length (h volumes))"
      by (intro range_bounds) auto
  qed
  with j k show ?thesis by (simp add: CellVolume_def rd_in_bounds)
qed

text \<open>What a completed query has changed, whatever the arrays passed.\<close>

lemma Area1Face_only_range:
  "Area1Face k j il iu areas h = Inr h' \<Longrightarrow> only_range areas il iu h h'"
  unfolding Area1Face_def bindF_eq_Inr
  by (auto elim!: for_loop_only_range [rotated] simp: bindF_eq_Inr dest: only_range_wr)

lemma Area2Face_only_range:
  "Area2Face k j il iu areas h = Inr h' \<Longrightarrow> only_range areas il iu h h'"
  unfolding Area2Face_def bindF_eq_Inr
  by (auto elim!: for_loop_only_range [rotated] simp: bindF_eq_Inr dest: only_range_wr)

lemma Area3Face_only_range:
  "Area3Face k j il iu areas h = Inr h' \<Longrightarrow> only_range areas il iu h h'"
  unfolding Area3Face_def bindF_eq_Inr
  by (auto elim!: for_loop_only_range [rotated] simp: bindF_eq_Inr dest: only_range_wr)

lemma CellVolume_only_range:
  "CellVolume k j il iu volumes h = Inr h' \<Longrightarrow> only_range volumes il iu h h'"
  unfolding CellVolume_def bindF_eq_Inr
  by (auto elim!: for_loop_only_range [rotated] simp: bindF_eq_Inr dest: only_range_wr)

lemma only_range_empty: "only_range a il iu h h' \<Longrightarrow> iu < il \<Longrightarrow> h' = h"
proof (rule ext)
  fix b assume o: "only_range a il iu h h'" and e: "iu < il"
  show "h' b = h b"
  proof (cases "b = a")
    case True
    have "h' a = h a"
      using o e by (intro nth_equalityI) (auto simp: only_range_def)
    with True show ?thesis by simp
  next
    case False
    with o show ?thesis by (simp add: only_range_def)
  qed
qed

lemma scenario_simps [simp]:
  "scenario dx1f = [1, 1, 1, 1]" "scenario dx2f = [2]" "scenario dx3f = [3]"
  "scenario (caller 0) = [0, 0, 0, 0]" "scenario (caller 1) = [7, 7, 7, 7]"
  "scenario (caller (Suc 0)) = [7, 7, 7, 7]"
  by (simp_all add: scenario_def)

section \<open>Cell volumes\<close>

text \<open>
  Claim C1. For transverse indices \<open>j\<close>, \<open>k\<close> inside the face-spacing arrays and a range
  from \<open>il\<close> to \<open>iu\<close> inside both the output buffer and \<^verbatim>\<open>dx1f\<close> (interior or ghost
  cells alike), \<^verbatim>\<open>CellVolume\<close> completes and leaves in \<open>volumes(i)\<close>, for every \<open>i\<close> of
  the range, the product \<^verbatim>\<open>dx1f(i) * dx2f(j) * dx3f(k)\<close>, multiplied in this order. The
  output buffer is not one of the three face-spacing arrays.
\<close>

theorem CellVolume_product:
  assumes "in_bounds h dx2f j" and "in_bounds h dx3f k"
    and "\<forall>i\<in>{il..iu}. in_bounds h volumes i \<and> in_bounds h dx1f i"
    and "volumes \<notin> {dx1f, dx2f, dx3f}"
  shows "\<exists>h'. CellVolume k j il iu volumes h = Inr h' \<and>
           (\<forall>i\<in>{il..iu}. h' volumes ! nat i = h dx1f ! nat i * h dx2f ! nat j * h dx3f ! nat k)"
proof -
  let ?g = "\<lambda>i. h dx1f ! nat i * h dx2f ! nat j * h dx3f ! nat k"
  have run: "CellVolume k j il iu volumes h = Inr (h(volumes := fill ?g il iu (h volumes)))"
    using assms by (intro CellVolume_eq) auto
  have "fill ?g il iu (h volumes) ! nat i = ?g i" if "i \<in> {il..iu}" for i
  proof -
    from that assms(3) have "in_bounds h volumes i" by blast
    with that show ?thesis by (simp add: in_bounds_def nth_fill_int)
  qed
  with run show ?thesis by simp
qed

theorem CellVolume_product_witness:
  "in_bounds scenario dx2f 0 \<and> in_bounds scenario dx3f 0 \<and>
   in_bounds scenario (caller 0) 0 \<and> in_bounds scenario (caller 0) 3 \<and>
   in_bounds scenario dx1f 0 \<and> in_bounds scenario dx1f 3 \<and>
   caller 0 \<notin> {dx1f, dx2f, dx3f} \<and>
   (\<exists>h'. CellVolume 0 0 0 3 (caller 0) scenario = Inr h' \<and>
      h' (caller 0) ! 0 = 6 \<and> h' (caller 0) ! 1 = 6 \<and> h' (caller 0) ! 2 = 6 \<and>
      h' (caller 0) ! 3 = 6)"
proof -
  have hyp: "in_bounds scenario dx2f 0" "in_bounds scenario dx3f 0"
    "\<forall>i\<in>{0..3}. in_bounds scenario (caller 0) i \<and> in_bounds scenario dx1f i"
    "caller 0 \<notin> {dx1f, dx2f, dx3f}"
    by (simp_all add: in_bounds_def)
  from CellVolume_product [OF hyp] obtain h'
    where run: "CellVolume 0 0 0 3 (caller 0) scenario = Inr h'"
      and v: "\<forall>i\<in>{0..3}. h' (caller 0) ! nat i =
                scenario dx1f ! nat i * scenario dx2f ! nat 0 * scenario dx3f ! nat 0"
    by blast
  from v [rule_format, of 0] v [rule_format, of 1] v [rule_format, of 2] v [rule_format, of 3]
  have "h' (caller 0) ! 0 = 6" "h' (caller 0) ! 1 = 6" "h' (caller 0) ! 2 = 6"
    "h' (caller 0) ! 3 = 6"
    by (simp_all add: nat_numeral [symmetric] del: nat_numeral)
  with hyp run show ?thesis by (simp add: in_bounds_def)
qed

section \<open>Coordinate source terms\<close>

text \<open>
  Claim C3. \<^verbatim>\<open>CoordinateSourceTerms\<close> returns at once: for all transverse indices and
  whatever the primitive and the source arrays are and hold, the store after the call is
  the store before it, so the output buffer is as the caller left it.
\<close>

theorem CoordinateSourceTerms_no_op:
  "CoordinateSourceTerms k j prim sources h = Inr h"
  by (simp add: CoordinateSourceTerms_def)

section \<open>Face areas\<close>

text \<open>
  Claim C2. For transverse indices \<open>j\<close>, \<open>k\<close> inside the face-spacing arrays and a range
  from \<open>il\<close> to \<open>iu\<close> inside both the output buffer and \<^verbatim>\<open>dx1f\<close>, each face-area query
  completes and leaves, at every index \<open>i\<close> of the range, the product of the two other
  axes' face spacings: \<^verbatim>\<open>dx2f(j) * dx3f(k)\<close> for \<^verbatim>\<open>Area1Face\<close>, \<^verbatim>\<open>dx1f(i) * dx3f(k)\<close> for
  \<^verbatim>\<open>Area2Face\<close>, \<^verbatim>\<open>dx1f(i) * dx2f(j)\<close> for \<^verbatim>\<open>Area3Face\<close>. The area orthogonal to axis 1
  is the same at all indices of the range. The output buffer is not one of the three
  face-spacing arrays.
\<close>

theorem face_areas_product:
  assumes "in_bounds h dx2f j" and "in_bounds h dx3f k"
    and "\<forall>i\<in>{il..iu}. in_bounds h areas i \<and> in_bounds h dx1f i"
    and "areas \<notin> {dx1f, dx2f, dx3f}"
  shows "(\<exists>h'. Area1Face k j il iu areas h = Inr h' \<and>
            (\<forall>i\<in>{il..iu}. h' areas ! nat i = h dx2f ! nat j * h dx3f ! nat k) \<and>
            (\<forall>i\<in>{il..iu}. \<forall>i'\<in>{il..iu}. h' areas ! nat i = h' areas ! nat i')) \<and>
         (\<exists>h'. Area2Face k j il iu areas h = Inr h' \<and>
            (\<forall>i\<in>{il..iu}. h' areas ! nat i = h dx1f ! nat i * h dx3f ! nat k)) \<and>
         (\<exists>h'. Area3Face k j il iu areas h = Inr h' \<and>
            (\<forall>i\<in>{il..iu}. h' areas ! nat i = h dx1f ! nat i * h dx2f ! nat j))"
proof -
  have nth: "fill g il iu (h areas) ! nat i = g i" if "i \<in> {il..iu}" for i and g :: "int \<Rightarrow> 'a"
  proof -
    from that assms(3) have "in_bounds h areas i" by blast
    with that show ?thesis by (simp add: in_bounds_def nth_fill_int)
  qed
  have r: "\<forall>i\<in>{il..iu}. in_bounds h areas i" using assms(3) by blast
  have "Area1Face k j il iu areas h =
        Inr (h(areas := fill (\<lambda>i. h dx2f ! nat j * h dx3f ! nat k) il iu (h areas)))"
    using assms r by (intro Area1Face_eq) auto
  then have a1: "\<exists>h'. Area1Face k j il iu areas h = Inr h' \<and>
            (\<forall>i\<in>{il..iu}. h' areas ! nat i = h dx2f ! nat j * h dx3f ! nat k) \<and>
            (\<forall>i\<in>{il..iu}. \<forall>i'\<in>{il..iu}. h' areas ! nat i = h' areas ! nat i')"
    by (simp add: nth)
  have "Area2Face k j il iu areas h =
        Inr (h(areas := fill (\<lambda>i. h dx1f ! nat i * h dx3f ! nat k) il iu (h areas)))"
    using assms by (intro Area2Face_eq) auto
  then have a2: "\<exists>h'. Area2Face k j il iu areas h = Inr h' \<and>
            (\<forall>i\<in>{il..iu}. h' areas ! nat i = h dx1f ! nat i * h dx3f ! nat k)"
    by (simp add: nth)
  have "Area3Face k j il iu areas h =
        Inr (h(areas := fill (\<lambda>i. h dx1f ! nat i * h dx2f ! nat j) il iu (h areas)))"
    using assms by (intro Area3Face_eq) auto
  then have a3: "\<exists>h'. Area3Face k j il iu areas h = Inr h' \<and>
            (\<forall>i\<in>{il..iu}. h' areas ! nat i = h dx1f ! nat i * h dx2f ! nat j)"
    by (simp add: nth)
  from a1 a2 a3 show ?thesis by blast
qed

theorem face_areas_product_witness:
  "in_bounds scenario dx2f 0 \<and> in_bounds scenario dx3f 0 \<and>
   in_bounds scenario (caller 0) 0 \<and> in_bounds scenario (caller 0) 3 \<and>
   in_bounds scenario dx1f 0 \<and> in_bounds scenario dx1f 3 \<and>
   caller 0 \<notin> {dx1f, dx2f, dx3f} \<and>
   (\<exists>h'. Area1Face 0 0 0 3 (caller 0) scenario = Inr h' \<and>
      h' (caller 0) ! 0 = 6 \<and> h' (caller 0) ! 3 = 6) \<and>
   (\<exists>h'. Area2Face 0 0 0 3 (caller 0) scenario = Inr h' \<and>
      h' (caller 0) ! 0 = 3 \<and> h' (caller 0) ! 3 = 3) \<and>
   (\<exists>h'. Area3Face 0 0 0 3 (caller 0) scenario = Inr h' \<and>
      h' (caller 0) ! 0 = 2 \<and> h' (caller 0) ! 3 = 2)"
proof -
  have hyp: "in_bounds scenario dx2f 0" "in_bounds scenario dx3f 0"
    "\<forall>i\<in>{0..3}. in_bounds scenario (caller 0) i \<and> in_bounds scenario dx1f i"
    "caller 0 \<notin> {dx1f, dx2f, dx3f}"
    by (simp_all add: in_bounds_def)
  note t = face_areas_product [OF hyp]
  from t obtain h1 where r1: "Area1Face 0 0 0 3 (caller 0) scenario = Inr h1"
    and v1: "\<forall>i\<in>{0..3}. h1 (caller 0) ! nat i = scenario dx2f ! nat 0 * scenario dx3f ! nat 0"
    by blast
  from t obtain h2 where r2: "Area2Face 0 0 0 3 (caller 0) scenario = Inr h2"
    and v2: "\<forall>i\<in>{0..3}. h2 (caller 0) ! nat i = scenario dx1f ! nat i * scenario dx3f ! nat 0"
    by blast
  from t obtain h3 where r3: "Area3Face 0 0 0 3 (caller 0) scenario = Inr h3"
    and v3: "\<forall>i\<in>{0..3}. h3 (caller 0) ! nat i = scenario dx1f ! nat i * scenario dx2f ! nat 0"
    by blast
  from v1 [rule_format, of 0] v1 [rule_format, of 3]
  have w1: "h1 (caller 0) ! 0 = 6" "h1 (caller 0) ! 3 = 6"
    by (simp_all add: nat_numeral [symmetric] del: nat_numeral)
  from v2 [rule_format, of 0] v2 [rule_format, of 3]
  have w2: "h2 (caller 0) ! 0 = 3" "h2 (caller 0) ! 3 = 3"
    by (simp_all add: nat_numeral [symmetric] del: nat_numeral)
  from v3 [rule_format, of 0] v3 [rule_format, of 3]
  have w3: "h3 (caller 0) ! 0 = 2" "h3 (caller 0) ! 3 = 2"
    by (simp_all add: nat_numeral [symmetric] del: nat_numeral)
  from r1 w1 r2 w2 r3 w3 show ?thesis by (simp add: in_bounds_def)
qed

section \<open>What the queries leave alone\<close>

text \<open>
  Claim C7. When a face-area or cell-volume query on the range from \<open>il\<close> to \<open>iu\<close> has
  completed, the output buffer has its length, and every entry of it at an index outside
  the range is the entry from before the call; nothing is cleared. With an empty range
  (\<open>iu < il\<close>) the whole buffer is as before. This holds whichever array is passed as
  buffer.
\<close>

theorem queries_keep_outside_range:
  assumes "Q \<in> {Area1Face, Area2Face, Area3Face, CellVolume}"
    and "Q k j il iu buf h = Inr h'"
  shows "length (h' buf) = length (h buf) \<and>
         (\<forall>n<length (h buf). \<not> (il \<le> int n \<and> int n \<le> iu) \<longrightarrow> h' buf ! n = h buf ! n) \<and>
         (iu < il \<longrightarrow> h' buf = h buf)"
proof -
  from assms have o: "only_range buf il iu h h'"
    by (auto dest: Area1Face_only_range Area2Face_only_range Area3Face_only_range
        CellVolume_only_range)
  then have "iu < il \<longrightarrow> h' buf = h buf"
    by (auto dest: only_range_empty)
  with o show ?thesis by (simp add: only_range_def)
qed

theorem queries_keep_outside_range_witness:
  "Area2Face 0 0 1 2 (caller 1) scenario = Inr (scenario(caller 1 := [7, 3, 3, 7])) \<and>
   length ((scenario(caller 1 := [7, 3, 3, 7])) (caller 1)) = length (scenario (caller 1)) \<and>
   (scenario(caller 1 := [7, 3, 3, 7])) (caller 1) ! 0 = scenario (caller 1) ! 0 \<and>
   (scenario(caller 1 := [7, 3, 3, 7])) (caller 1) ! 3 = scenario (caller 1) ! 3 \<and>
   (\<exists>h'. CellVolume 0 0 3 1 (caller 1) scenario = Inr h' \<and> h' (caller 1) = [7, 7, 7, 7])"
proof -
  have "Area2Face 0 0 1 2 (caller 1) scenario =
        Inr (scenario(caller 1 :=
               fill (\<lambda>i. scenario dx1f ! nat i * scenario dx3f ! nat 0) 1 2 (scenario (caller 1))))"
    by (rule Area2Face_eq) (auto simp: in_bounds_def)
  also have "fill (\<lambda>i. scenario dx1f ! nat i * scenario dx3f ! nat 0) 1 2 (scenario (caller 1)) =
             [7, 3, 3, 7]"
    by (simp add: fill_def upt_rec)
  finally have run: "Area2Face 0 0 1 2 (caller 1) scenario = Inr (scenario(caller 1 := [7, 3, 3, 7]))" .
  have "\<exists>h'. CellVolume 0 0 3 1 (caller 1) scenario = Inr h'"
    by (subst CellVolume_eq) (auto simp: in_bounds_def)
  then obtain h' where run': "CellVolume 0 0 3 1 (caller 1) scenario = Inr h'" ..
  from queries_keep_outside_range [where Q = CellVolume, OF _ run']
  have "h' (caller 1) = [7, 7, 7, 7]" by simp
  with run' queries_keep_outside_range [where Q = Area2Face, OF _ run] run show ?thesis
    by simp
qed

text \<open>
  Claim C10. A completed face-area or cell-volume query has changed no array of the
  store other than the one passed as output buffer: the block's face positions, face
  spacings, cell centres and centre spacings and the two scratch arrays are as before
  (unless the caller passed one of them as the buffer), and in the buffer only entries at
  indices from \<open>il\<close> to \<open>iu\<close> can differ. \<^verbatim>\<open>CoordinateSourceTerms\<close> changes nothing at
  all.
\<close>

theorem queries_write_only_buffer:
  "(Q \<in> {Area1Face, Area2Face, Area3Face, CellVolume} \<and> Q k j il iu buf h = Inr h' \<longrightarrow>
      (\<forall>b. b \<noteq> buf \<longrightarrow> h' b = h b) \<and> length (h' buf) = length (h buf) \<and>
      (\<forall>n<length (h buf). h' buf ! n \<noteq> h buf ! n \<longrightarrow> il \<le> int n \<and> int n \<le> iu)) \<and>
   (CoordinateSourceTerms k j prim sources h = Inr h' \<longrightarrow> h' = h)"
proof -
  have "only_range buf il iu h h'"
    if "Q \<in> {Area1Face, Area2Face, Area3Face, CellVolume}" "Q k j il iu buf h = Inr h'"
    using that
    by (auto dest: Area1Face_only_range Area2Face_only_range Area3Face_only_range
        CellVolume_only_range)
  then show ?thesis
    by (auto simp: only_range_def CoordinateSourceTerms_def)
qed

theorem queries_write_only_buffer_witness:
  "(\<exists>h'. CellVolume 0 0 1 2 (caller 1) scenario = Inr h' \<and>
      h' x1f = scenario x1f \<and> h' dx1f = scenario dx1f \<and> h' x1v = scenario x1v \<and>
      h' dx1v = scenario dx1v \<and> h' face_area = scenario face_area \<and>
      h' cell_volume = scenario cell_volume \<and> h' (caller 0) = scenario (caller 0) \<and>
      length (h' (caller 1)) = 4) \<and>
   CoordinateSourceTerms 0 0 (caller 0) (caller 1) scenario = Inr scenario"
proof -
  have "\<exists>h'. CellVolume 0 0 1 2 (caller 1) scenario = Inr h'"
    by (subst CellVolume_eq) (auto simp: in_bounds_def)
  then obtain h' where run: "CellVolume 0 0 1 2 (caller 1) scenario = Inr h'" ..
  from queries_write_only_buffer [where Q = CellVolume and h' = h' and k = 0 and j = 0
      and il = 1 and iu = 2 and buf = "caller 1" and h = scenario] run
  have "\<forall>b. b \<noteq> caller 1 \<longrightarrow> h' b = scenario b" "length (h' (caller 1)) = 4"
    by simp_all
  with run show ?thesis by (simp add: CoordinateSourceTerms_def)
qed

section \<open>The constructor\<close>

lemma extended_eq:
  assumes ok: "extended_ok h xf xv dxv lo hi" and ne: "xf \<noteq> xv" "xv \<noteq> dxv"
  shows "extended xf xv dxv lo hi h = Inr (after_extended xf xv dxv lo hi h)"
proof -
  let ?XV = "fill (midpoints (h xf)) lo hi (h xv)"
  let ?h1 = "h(xv := ?XV)"
  have l1: "for_loop lo hi
              (\<lambda>i h. bindF (rd h xf i) (\<lambda>a. bindF (rd h xf (i + 1)) (\<lambda>b.
                       wr h xv i (0.5 * (a + b))))) h = Inr ?h1"
  proof (rule for_loop_fill)
    fix i h'
    assume i: "lo \<le> i" "i \<le> hi" and off: "\<forall>b. b \<noteq> xv \<longrightarrow> h' b = h b"
    from i ok have "in_bounds h xf i" "in_bounds h xf (i + 1)"
      by (auto simp: extended_ok_def in_bounds_def)
    moreover from off ne have "h' xf = h xf" by simp
    ultimately have "rd h' xf i = Inr (h xf ! nat i)" "rd h' xf (i + 1) = Inr (h xf ! nat (i + 1))"
      by (simp_all add: rd_def in_bounds_def)
    then show "bindF (rd h' xf i) (\<lambda>a. bindF (rd h' xf (i + 1)) (\<lambda>b.
                 wr h' xv i (0.5 * (a + b)))) = wr h' xv i (midpoints (h xf) i)"
      by (simp add: midpoints_def)
  next
    assume "lo \<le> hi" with ok show "0 \<le> lo \<and> hi < int (length (h xv))"
      by (simp add: extended_ok_def)
  qed
  have l2: "for_loop lo (hi - 1)
              (\<lambda>i h. bindF (rd h xv (i + 1)) (\<lambda>a. bindF (rd h xv i) (\<lambda>b.
                       wr h dxv i (a - b)))) ?h1 =
            Inr (?h1(dxv := fill (differences ?XV) lo (hi - 1) (?h1 dxv)))"
  proof (rule for_loop_fill)
    fix i h'
    assume i: "lo \<le> i" "i \<le> hi - 1" and off: "\<forall>b. b \<noteq> dxv \<longrightarrow> h' b = ?h1 b"
    from off ne have xv: "h' xv = ?XV" by simp
    from i ok have "0 \<le> i" "i + 1 < int (length (h xv))"
      by (auto simp: extended_ok_def)
    with xv have "rd h' xv (i + 1) = Inr (?XV ! nat (i + 1))" "rd h' xv i = Inr (?XV ! nat i)"
      by (simp_all add: rd_def in_bounds_def)
    then show "bindF (rd h' xv (i + 1)) (\<lambda>a. bindF (rd h' xv i) (\<lambda>b.
                 wr h' dxv i (a - b))) = wr h' dxv i (differences ?XV i)"
      by (simp add: differences_def)
  next
    assume "lo \<le> hi - 1" with ok ne show "0 \<le> lo \<and> hi - 1 < int (length (?h1 dxv))"
      by (simp add: extended_ok_def)
  qed
  from ne have "?h1 dxv = h dxv" by simp
  with l1 l2 show ?thesis
    by (simp add: extended_def after_extended_def)
qed

lemma no_extent_eq:
  assumes ok: "no_extent_ok h xf dxf xv dxv s" and ne: "xv \<noteq> dxf" "xv \<noteq> dxv"
  shows "no_extent xf dxf xv dxv s h = Inr (after_no_extent xf dxf xv dxv s h)"
proof -
  let ?h1 = "h(xv := (h xv)[nat s := midpoints (h xf) s])"
  from ok have b: "in_bounds h xf s" "in_bounds h xf (s + 1)" "in_bounds h xv s"
    "in_bounds h dxf s" "in_bounds h dxv s"
    by (simp_all add: no_extent_ok_def)
  have c: "bindF (rd h xf s) (\<lambda>a. bindF (rd h xf (s + 1)) (\<lambda>b. wr h xv s (0.5 * (a + b)))) =
           Inr ?h1"
    by (simp only: rd_in_bounds [OF b(1)] rd_in_bounds [OF b(2)] bindF_Inr
        wr_in_bounds [OF b(3)] midpoints_def)
  from ne b have b1: "in_bounds ?h1 dxf s" "in_bounds ?h1 dxv s"
    by (simp_all add: in_bounds_def)
  from ne have v: "?h1 dxf = h dxf" "?h1 dxv = h dxv" by simp_all
  have d: "bindF (rd ?h1 dxf s) (\<lambda>d. wr ?h1 dxv s d) =
           Inr (?h1(dxv := (h dxv)[nat s := h dxf ! nat s]))"
    by (simp only: rd_in_bounds [OF b1(1)] bindF_Inr wr_in_bounds [OF b1(2)] v)
  show ?thesis
    unfolding no_extent_def after_no_extent_def
    by (simp only: c bindF_Inr d)
qed

lemma length_after_extended [simp]:
  "length (after_extended xf xv dxv lo hi h b) = length (h b)"
  by (simp add: after_extended_def)

lemma length_after_no_extent [simp]:
  "length (after_no_extent xf dxf xv dxv s h b) = length (h b)"
  by (simp add: after_no_extent_def)

lemma extended_ok_after [simp]:
  "extended_ok (after_extended xf' xv' dxv' lo' hi' h) xf xv dxv lo hi =
   extended_ok h xf xv dxv lo hi"
  "extended_ok (after_no_extent xf' dxf' xv' dxv' s' h) xf xv dxv lo hi =
   extended_ok h xf xv dxv lo hi"
  by (simp_all add: extended_ok_def)

lemma no_extent_ok_after [simp]:
  "no_extent_ok (after_extended xf' xv' dxv' lo' hi' h) xf dxf xv dxv s =
   no_extent_ok h xf dxf xv dxv s"
  "no_extent_ok (after_no_extent xf' dxf' xv' dxv' s' h) xf dxf xv dxv s =
   no_extent_ok h xf dxf xv dxv s"
  by (simp_all add: no_extent_ok_def in_bounds_def)

lemma Coordinates_eq:
  assumes "populated NGHOST pb h"
  shows "Coordinates NGHOST junk pb h = Inr (after_Coordinates NGHOST junk pb h)"
proof -
  let ?h1 = "after_extended x1f x1v dx1v (is' pb - NGHOST) (ie pb + NGHOST) h"
  let ?h2 = "if nx2 pb = 1 then after_no_extent x2f dx2f x2v dx2v (js pb) ?h1
             else after_extended x2f x2v dx2v (js pb - NGHOST) (je pb + NGHOST) ?h1"
  let ?h3 = "if nx3 pb = 1 then after_no_extent x3f dx3f x3v dx3v (ks pb) ?h2
             else after_extended x3f x3v dx3v (ks pb - NGHOST) (ke pb + NGHOST) ?h2"
  have s1: "extended x1f x1v dx1v (is' pb - NGHOST) (ie pb + NGHOST) h = Inr ?h1"
    using assms by (intro extended_eq) (simp_all add: populated_def)
  have s2: "(if nx2 pb = 1 then no_extent x2f dx2f x2v dx2v (js pb) ?h1
             else extended x2f x2v dx2v (js pb - NGHOST) (je pb + NGHOST) ?h1) = Inr ?h2"
  proof (cases "nx2 pb = 1")
    case True
    with assms have "no_extent_ok ?h1 x2f dx2f x2v dx2v (js pb)"
      by (simp add: populated_def)
    then have "no_extent x2f dx2f x2v dx2v (js pb) ?h1 =
               Inr (after_no_extent x2f dx2f x2v dx2v (js pb) ?h1)"
      by (rule no_extent_eq) simp_all
    with True show ?thesis by simp
  next
    case False
    with assms have "extended_ok ?h1 x2f x2v dx2v (js pb - NGHOST) (je pb + NGHOST)"
      by (simp add: populated_def)
    then have "extended x2f x2v dx2v (js pb - NGHOST) (je pb + NGHOST) ?h1 =
               Inr (after_extended x2f x2v dx2v (js pb - NGHOST) (je pb + NGHOST) ?h1)"
      by (rule extended_eq) simp_all
    with False show ?thesis by simp
  qed
  have s3: "(if nx3 pb = 1 then no_extent x3f dx3f x3v dx3v (ks pb) ?h2
             else extended x3f x3v dx3v (ks pb - NGHOST) (ke pb + NGHOST) ?h2) = Inr ?h3"
  proof (cases "nx3 pb = 1")
    case True
    with assms have "no_extent_ok ?h2 x3f dx3f x3v dx3v (ks pb)"
      by (simp add: populated_def)
    then have "no_extent x3f dx3f x3v dx3v (ks pb) ?h2 =
               Inr (after_no_extent x3f dx3f x3v dx3v (ks pb) ?h2)"
      by (rule no_extent_eq) simp_all
    with True show ?thesis by simp
  next
    case False
    with assms have "extended_ok ?h2 x3f x3v dx3v (ks pb - NGHOST) (ke pb + NGHOST)"
      by (simp add: populated_def)
    then have "extended x3f x3v dx3v (ks pb - NGHOST) (ke pb + NGHOST) ?h2 =
               Inr (after_extended x3f x3v dx3v (ks pb - NGHOST) (ke pb + NGHOST) ?h2)"
      by (rule extended_eq) simp_all
    with False show ?thesis by simp
  qed
  from assms have n: "\<not> nx1 pb + 2 * NGHOST < 0" by (simp add: populated_def)
  show ?thesis
    unfolding Coordinates_def
    by (simp only: s1 bindF_Inr s2 s3 NewAthenaArray_def n if_False after_Coordinates_def Let_def)
qed

text \<open>The arrays of the store after the constructor.\<close>

lemma after_Coordinates_axis1:
  "after_Coordinates NGHOST junk pb h x1v =
     fill (midpoints (h x1f)) (is' pb - NGHOST) (ie pb + NGHOST) (h x1v)"
  "after_Coordinates NGHOST junk pb h dx1v =
     fill (differences (after_Coordinates NGHOST junk pb h x1v))
       (is' pb - NGHOST) (ie pb + NGHOST - 1) (h dx1v)"
  by (simp_all add: after_Coordinates_def Let_def after_extended_def after_no_extent_def)

lemma after_Coordinates_axis2:
  "nx2 pb \<noteq> 1 \<Longrightarrow> after_Coordinates NGHOST junk pb h x2v =
     fill (midpoints (h x2f)) (js pb - NGHOST) (je pb + NGHOST) (h x2v)"
  "nx2 pb \<noteq> 1 \<Longrightarrow> after_Coordinates NGHOST junk pb h dx2v =
     fill (differences (after_Coordinates NGHOST junk pb h x2v))
       (js pb - NGHOST) (je pb + NGHOST - 1) (h dx2v)"
  "nx2 pb = 1 \<Longrightarrow> after_Coordinates NGHOST junk pb h x2v =
     (h x2v)[nat (js pb) := midpoints (h x2f) (js pb)]"
  "nx2 pb = 1 \<Longrightarrow> after_Coordinates NGHOST junk pb h dx2v =
     (h dx2v)[nat (js pb) := h dx2f ! nat (js pb)]"
  by (simp_all add: after_Coordinates_def Let_def after_extended_def after_no_extent_def)

lemma after_Coordinates_axis3:
  "nx3 pb \<noteq> 1 \<Longrightarrow> after_Coordinates NGHOST junk pb h x3v =
     fill (midpoints (h x3f)) (ks pb - NGHOST) (ke pb + NGHOST) (h x3v)"
  "nx3 pb \<noteq> 1 \<Longrightarrow> after_Coordinates NGHOST junk pb h dx3v =
     fill (differences (after_Coordinates NGHOST junk pb h x3v))
       (ks pb - NGHOST) (ke pb + NGHOST - 1) (h dx3v)"
  "nx3 pb = 1 \<Longrightarrow> after_Coordinates NGHOST junk pb h x3v =
     (h x3v)[nat (ks pb) := midpoints (h x3f) (ks pb)]"
  "nx3 pb = 1 \<Longrightarrow> after_Coordinates NGHOST junk pb h dx3v =
     (h dx3v)[nat (ks pb) := h dx3f ! nat (ks pb)]"
  by (simp_all add: after_Coordinates_def Let_def after_extended_def after_no_extent_def)

lemma after_Coordinates_other:
  "b \<notin> {x1v, dx1v, x2v, dx2v, x3v, dx3v, face_area, cell_volume} \<Longrightarrow>
   after_Coordinates NGHOST junk pb h b = h b"
  by (simp add: after_Coordinates_def Let_def after_extended_def after_no_extent_def)

lemma after_Coordinates_scratch:
  "after_Coordinates NGHOST junk pb h face_area = map junk [0..<nat (nx1 pb + 2 * NGHOST)]"
  "after_Coordinates NGHOST junk pb h cell_volume = map junk [0..<nat (nx1 pb + 2 * NGHOST)]"
  by (simp_all add: after_Coordinates_def Let_def)

text \<open>
  What an extended axis holds after its two loops, entry by entry.
\<close>

lemma extended_entries:
  assumes ok: "extended_ok h xf xv dxv lo hi"
    and xv: "XV = fill (midpoints (h xf)) lo hi (h xv)"
    and dxv: "DXV = fill (differences XV) lo (hi - 1) (h dxv)"
  shows "\<forall>i\<in>{lo..hi}. XV ! nat i = 0.5 * (h xf ! nat i + h xf ! nat (i + 1))"
    and "\<forall>i\<in>{lo..hi - 1}. DXV ! nat i = XV ! nat (i + 1) - XV ! nat i"
proof -
  show "\<forall>i\<in>{lo..hi}. XV ! nat i = 0.5 * (h xf ! nat i + h xf ! nat (i + 1))"
  proof
    fix i assume i: "i \<in> {lo..hi}"
    with ok have "0 \<le> i" "i < int (length (h xv))" by (auto simp: extended_ok_def)
    with i show "XV ! nat i = 0.5 * (h xf ! nat i + h xf ! nat (i + 1))"
      by (simp add: xv nth_fill_int midpoints_def)
  qed
  show "\<forall>i\<in>{lo..hi - 1}. DXV ! nat i = XV ! nat (i + 1) - XV ! nat i"
  proof
    fix i assume i: "i \<in> {lo..hi - 1}"
    with ok have "0 \<le> i" "i < int (length (h dxv))" by (auto simp: extended_ok_def)
    with i show "DXV ! nat i = XV ! nat (i + 1) - XV ! nat i"
      by (simp add: dxv nth_fill_int differences_def)
  qed
qed

section \<open>What the constructor stores\<close>

lemma cube_simps [simp]:
  "cube x1f = [0, 1, 2, 3, 4]" "cube x2f = [0, 2, 4, 6, 8]" "cube x3f = [0, 3, 6, 9, 12]"
  "cube x1v = [0, 0, 0, 0]" "cube x2v = [0, 0, 0, 0]" "cube x3v = [0, 0, 0, 0]"
  "cube dx1v = [0, 0, 0, 0]" "cube dx2v = [0, 0, 0, 0]" "cube dx3v = [0, 0, 0, 0]"
  by (simp_all add: cube_def)

lemma populated_cube: "populated 1 cube_block cube"
  by (simp add: populated_def cube_block_def extended_ok_def no_overflow_def int_ok_def)

text \<open>
  Claim C4. On a block whose arrays are allocated over the interior and the ghost
  margins, the constructor completes, and afterwards, along axis 1 and along each of the
  axes 2 and 3 that has more than one cell, \<open>xv(i) = 0.5 * (xf(i) + xf(i+1))\<close> for every
  \<open>i\<close> from the lower to the upper ghost bound and \<open>dxv(i) = xv(i+1) - xv(i)\<close> for every
  \<open>i\<close> from the lower ghost bound to one below the upper. The faces are those from before
  the call, which the constructor leaves as they are. (Axis 1 is treated so whatever its
  number of cells.)
\<close>

theorem constructor_centers_spacings:
  assumes "populated NGHOST pb h"
  shows "\<exists>h'. Coordinates NGHOST junk pb h = Inr h' \<and>
           h' x1f = h x1f \<and> h' x2f = h x2f \<and> h' x3f = h x3f \<and>
           (\<forall>i\<in>{is' pb - NGHOST..ie pb + NGHOST}.
              h' x1v ! nat i = 0.5 * (h x1f ! nat i + h x1f ! nat (i + 1))) \<and>
           (\<forall>i\<in>{is' pb - NGHOST..ie pb + NGHOST - 1}.
              h' dx1v ! nat i = h' x1v ! nat (i + 1) - h' x1v ! nat i) \<and>
           (1 < nx2 pb \<longrightarrow>
              (\<forall>j\<in>{js pb - NGHOST..je pb + NGHOST}.
                 h' x2v ! nat j = 0.5 * (h x2f ! nat j + h x2f ! nat (j + 1))) \<and>
              (\<forall>j\<in>{js pb - NGHOST..je pb + NGHOST - 1}.
                 h' dx2v ! nat j = h' x2v ! nat (j + 1) - h' x2v ! nat j)) \<and>
           (1 < nx3 pb \<longrightarrow>
              (\<forall>k\<in>{ks pb - NGHOST..ke pb + NGHOST}.
                 h' x3v ! nat k = 0.5 * (h x3f ! nat k + h x3f ! nat (k + 1))) \<and>
              (\<forall>k\<in>{ks pb - NGHOST..ke pb + NGHOST - 1}.
                 h' dx3v ! nat k = h' x3v ! nat (k + 1) - h' x3v ! nat k))"
proof -
  let ?h' = "after_Coordinates NGHOST junk pb h"
  have run: "Coordinates NGHOST junk pb h = Inr ?h'"
    using assms by (rule Coordinates_eq)
  have faces: "?h' x1f = h x1f" "?h' x2f = h x2f" "?h' x3f = h x3f"
    by (simp_all add: after_Coordinates_other)
  have ok1: "extended_ok h x1f x1v dx1v (is' pb - NGHOST) (ie pb + NGHOST)"
    using assms by (simp add: populated_def)
  note a1 = extended_entries [OF ok1 after_Coordinates_axis1]
  have a2: "(\<forall>j\<in>{js pb - NGHOST..je pb + NGHOST}.
                 ?h' x2v ! nat j = 0.5 * (h x2f ! nat j + h x2f ! nat (j + 1))) \<and>
              (\<forall>j\<in>{js pb - NGHOST..je pb + NGHOST - 1}.
                 ?h' dx2v ! nat j = ?h' x2v ! nat (j + 1) - ?h' x2v ! nat j)"
    if "1 < nx2 pb"
  proof -
    from that have ne: "nx2 pb \<noteq> 1" by simp
    with assms have ok2: "extended_ok h x2f x2v dx2v (js pb - NGHOST) (je pb + NGHOST)"
      by (simp add: populated_def)
    from extended_entries [OF ok2 after_Coordinates_axis2(1) [OF ne]
        after_Coordinates_axis2(2) [OF ne]]
    show ?thesis by blast
  qed
  have a3: "(\<forall>k\<in>{ks pb - NGHOST..ke pb + NGHOST}.
                 ?h' x3v ! nat k = 0.5 * (h x3f ! nat k + h x3f ! nat (k + 1))) \<and>
              (\<forall>k\<in>{ks pb - NGHOST..ke pb + NGHOST - 1}.
                 ?h' dx3v ! nat k = ?h' x3v ! nat (k + 1) - ?h' x3v ! nat k)"
    if "1 < nx3 pb"
  proof -
    from that have ne: "nx3 pb \<noteq> 1" by simp
    with assms have ok3: "extended_ok h x3f x3v dx3v (ks pb - NGHOST) (ke pb + NGHOST)"
      by (simp add: populated_def)
    from extended_entries [OF ok3 after_Coordinates_axis3(1) [OF ne]
        after_Coordinates_axis3(2) [OF ne]]
    show ?thesis by blast
  qed
  from run faces a1 a2 a3 show ?thesis by blast
qed

theorem constructor_centers_spacings_witness:
  "populated 1 cube_block cube \<and>
   (\<exists>h'. Coordinates 1 (\<lambda>_. 0) cube_block cube = Inr h' \<and>
      h' x1v ! 0 = 1 / 2 \<and> h' x1v ! 1 = 3 / 2 \<and> h' x1v ! 3 = 7 / 2 \<and>
      h' dx1v ! 0 = 1 \<and>
      h' x2v ! 0 = 1 \<and> h' x2v ! 1 = 3 \<and> h' dx2v ! 0 = 2 \<and>
      h' x3v ! 2 = 15 / 2 \<and> h' x3v ! 3 = 21 / 2 \<and> h' dx3v ! 2 = 3)"
proof -
  from constructor_centers_spacings [OF populated_cube, of "\<lambda>_. 0"]
  obtain h' where run: "Coordinates 1 (\<lambda>_. 0) cube_block cube = Inr h'"
    and x1: "\<forall>i\<in>{0..3}. h' x1v ! nat i = 0.5 * (cube x1f ! nat i + cube x1f ! nat (i + 1))"
    and d1: "\<forall>i\<in>{0..2}. h' dx1v ! nat i = h' x1v ! nat (i + 1) - h' x1v ! nat i"
    and x2: "\<forall>i\<in>{0..3}. h' x2v ! nat i = 0.5 * (cube x2f ! nat i + cube x2f ! nat (i + 1))"
    and d2: "\<forall>i\<in>{0..2}. h' dx2v ! nat i = h' x2v ! nat (i + 1) - h' x2v ! nat i"
    and x3: "\<forall>i\<in>{0..3}. h' x3v ! nat i = 0.5 * (cube x3f ! nat i + cube x3f ! nat (i + 1))"
    and d3: "\<forall>i\<in>{0..2}. h' dx3v ! nat i = h' x3v ! nat (i + 1) - h' x3v ! nat i"
    by (auto simp: cube_block_def)
  from x1 [rule_format, of 0] x1 [rule_format, of 1] x1 [rule_format, of 3]
  have v1: "h' x1v ! 0 = 1 / 2" "h' x1v ! 1 = 3 / 2" "h' x1v ! 3 = 7 / 2"
    by (simp_all add: nat_numeral [symmetric] nat_add_distrib del: nat_numeral)
  from x2 [rule_format, of 0] x2 [rule_format, of 1]
  have v2: "h' x2v ! 0 = 1" "h' x2v ! 1 = 3"
    by (simp_all add: nat_numeral [symmetric] nat_add_distrib del: nat_numeral)
  from x3 [rule_format, of 2] x3 [rule_format, of 3]
  have v3: "h' x3v ! 2 = 15 / 2" "h' x3v ! 3 = 21 / 2"
    by (simp_all add: nat_numeral [symmetric] nat_add_distrib del: nat_numeral)
  from d1 [rule_format, of 0] v1 have w1: "h' dx1v ! 0 = 1"
    by (simp add: nat_add_distrib)
  from d2 [rule_format, of 0] v2 have w2: "h' dx2v ! 0 = 2"
    by (simp add: nat_add_distrib)
  from d3 [rule_format, of 2] v3 have w3: "h' dx3v ! 2 = 3"
    by (simp add: nat_numeral [symmetric] nat_add_distrib del: nat_numeral)
  from populated_cube run v1 v2 v3 w1 w2 w3 show ?thesis by blast
qed

section \<open>Axes without extent\<close>

lemma populated_skewed: "populated 0 scenario_block (scenario(dx2f := [5]))"
  by (simp add: populated_def scenario_block_def extended_ok_def no_extent_ok_def in_bounds_def
      scenario_def no_overflow_def int_ok_def)

lemma populated_scenario: "populated 0 scenario_block scenario"
  by (simp add: populated_def scenario_block_def extended_ok_def no_extent_ok_def in_bounds_def
      scenario_def no_overflow_def int_ok_def)

lemma populated_thin: "populated 1 thin_block thin"
  by (simp add: populated_def thin_block_def extended_ok_def no_extent_ok_def in_bounds_def
      thin_def no_overflow_def int_ok_def)

text \<open>
  Claim C5, as stated, fails: the spacing of an axis without extent is copied from the
  block's face-spacing array, \<^verbatim>\<open>dx2v(js) = dx2f(js)\<close>, and is not computed from the
  faces. On the scenario block with \<open>x2f = [0, 2]\<close> and \<open>dx2f = [5]\<close> the constructor
  completes with \<open>dx2v(js) = 5\<close>, while \<open>x2f(js+1) - x2f(js) = 2\<close>.
\<close>

theorem no_extent_spacing_counterexample:
  "map_sum id (\<lambda>h'. (h' dx2v ! nat (js scenario_block),
                      h' x2f ! nat (js scenario_block + 1) - h' x2f ! nat (js scenario_block)))
     (Coordinates 0 (\<lambda>_. 0) scenario_block (scenario(dx2f := [5]))) = Inr (5, 2)"
proof -
  let ?h = "scenario(dx2f := [5])"
  have n: "nx2 scenario_block = 1" and j: "js scenario_block = 0"
    by (simp_all add: scenario_block_def)
  have "after_Coordinates 0 (\<lambda>_. 0) scenario_block ?h dx2v = [5]"
    by (simp add: after_Coordinates_axis2(4) [OF n] j scenario_def)
  moreover have "after_Coordinates 0 (\<lambda>_. 0) scenario_block ?h x2f = [0, 2]"
    by (simp add: after_Coordinates_other scenario_def)
  ultimately show ?thesis
    by (simp add: Coordinates_eq [OF populated_skewed] j)
qed

text \<open>
  Claim C5, amended. For a block with \<open>nx2 = 1\<close> whose arrays are allocated, the
  constructor completes and has set one centre, \<open>x2v(js) = 0.5 * (x2f(js) + x2f(js+1))\<close>,
  and one spacing, \<open>dx2v(js) = dx2f(js)\<close>, the face spacing the block stores at \<open>js\<close>
  (which is \<open>x2f(js+1) - x2f(js)\<close> when the block stores that difference there); every
  other entry of \<open>x2v\<close> and of \<open>dx2v\<close> is as before.
\<close>

theorem no_extent_axis2:
  assumes "populated NGHOST pb h" and "nx2 pb = 1"
  shows "\<exists>h'. Coordinates NGHOST junk pb h = Inr h' \<and>
           h' x2v ! nat (js pb) = 0.5 * (h x2f ! nat (js pb) + h x2f ! nat (js pb + 1)) \<and>
           h' dx2v ! nat (js pb) = h dx2f ! nat (js pb) \<and>
           (h dx2f ! nat (js pb) = h x2f ! nat (js pb + 1) - h x2f ! nat (js pb) \<longrightarrow>
              h' dx2v ! nat (js pb) = h x2f ! nat (js pb + 1) - h x2f ! nat (js pb)) \<and>
           length (h' x2v) = length (h x2v) \<and> length (h' dx2v) = length (h dx2v) \<and>
           (\<forall>n<length (h x2v). int n \<noteq> js pb \<longrightarrow> h' x2v ! n = h x2v ! n) \<and>
           (\<forall>n<length (h dx2v). int n \<noteq> js pb \<longrightarrow> h' dx2v ! n = h dx2v ! n)"
proof -
  let ?h' = "after_Coordinates NGHOST junk pb h"
  have run: "Coordinates NGHOST junk pb h = Inr ?h'"
    using assms(1) by (rule Coordinates_eq)
  from assms have b: "0 \<le> js pb" "nat (js pb) < length (h x2v)" "nat (js pb) < length (h dx2v)"
    by (auto simp: populated_def no_extent_ok_def in_bounds_def)
  have x: "?h' x2v = (h x2v)[nat (js pb) := midpoints (h x2f) (js pb)]"
    and d: "?h' dx2v = (h dx2v)[nat (js pb) := h dx2f ! nat (js pb)]"
    using assms(2) by (simp_all add: after_Coordinates_axis2)
  have ne: "n \<noteq> nat (js pb)" if "int n \<noteq> js pb" for n
    using that b(1) by auto
  from b show ?thesis
    by (simp add: run x d midpoints_def ne)
qed

theorem no_extent_axis2_witness:
  "populated 0 scenario_block scenario \<and> nx2 scenario_block = 1 \<and>
   (\<exists>h'. Coordinates 0 (\<lambda>_. 0) scenario_block scenario = Inr h' \<and>
      h' x2v ! 0 = 1 \<and> h' dx2v ! 0 = 2 \<and> length (h' x2v) = 1 \<and> length (h' dx2v) = 1)"
proof -
  have n: "nx2 scenario_block = 1" by (simp add: scenario_block_def)
  from no_extent_axis2 [OF populated_scenario n, of "\<lambda>_. 0"] populated_scenario n
  show ?thesis
    by (auto simp: scenario_block_def scenario_def)
qed

text \<open>
  Claim C6, as stated, fails for axis 1: the constructor has no branch on \<^verbatim>\<open>nx1\<close>. On a
  block with a single cell along axis 1 (\<open>is = ie = 1\<close>, one ghost cell on each side,
  faces \<open>0, 1, 3, 6\<close>) it runs the general loops over three cells: it stores the three
  centres \<open>0.5, 2, 4.5\<close> and the spacings \<open>dx1v(0) = 1.5\<close> and \<open>dx1v(1) = 2.5\<close>, where the
  face-to-face width of the cell is \<open>x1f(2) - x1f(1) = 2\<close>.
\<close>

theorem axis1_single_cell_counterexample:
  "map_sum id (\<lambda>h'. (h' x1v, h' dx1v, h' x1f ! 2 - h' x1f ! 1))
     (Coordinates 1 (\<lambda>_. 0) thin_block thin) = Inr ([1 / 2, 2, 9 / 2], [3 / 2, 5 / 2, 0], 2)"
proof -
  have b: "is' thin_block - 1 = 0" "ie thin_block + 1 = 2"
    by (simp_all add: thin_block_def)
  have f: "thin x1f = [0, 1, 3, 6]" "thin x1v = [0, 0, 0]" "thin dx1v = [0, 0, 0]"
    by (simp_all add: thin_def)
  have x: "after_Coordinates 1 (\<lambda>_. 0) thin_block thin x1v = [1 / 2, 2, 9 / 2]"
    by (simp add: after_Coordinates_axis1(1) b f fill_def upt_rec midpoints_def)
  have d: "after_Coordinates 1 (\<lambda>_. 0) thin_block thin dx1v = [3 / 2, 5 / 2, 0]"
    by (simp add: after_Coordinates_axis1(2) x b f fill_def upt_rec differences_def)
  have "after_Coordinates 1 (\<lambda>_. 0) thin_block thin x1f = [0, 1, 3, 6]"
    by (simp add: after_Coordinates_other f)
  with x d show ?thesis
    by (simp add: Coordinates_eq [OF populated_thin])
qed

text \<open>
  Claim C6, amended. Axes 2 and 3 with exactly one cell (\<open>nx2 = 1\<close>, \<open>nx3 = 1\<close>) are not
  iterated: the constructor changes one entry of the centre array, to the midpoint of the
  two bounding faces, and one entry of the spacing array, to the face spacing the block
  stores for that cell, and nothing else of the two arrays. Axis 1 has no such branch: it
  always gets the general recurrence over the range with ghost cells, also when
  \<open>nx1 = 1\<close>.
\<close>

theorem no_extent_axes:
  assumes "populated NGHOST pb h"
  shows "\<exists>h'. Coordinates NGHOST junk pb h = Inr h' \<and>
           (nx2 pb = 1 \<longrightarrow>
              h' x2v = (h x2v)[nat (js pb) :=
                          0.5 * (h x2f ! nat (js pb) + h x2f ! nat (js pb + 1))] \<and>
              h' dx2v = (h dx2v)[nat (js pb) := h dx2f ! nat (js pb)]) \<and>
           (nx3 pb = 1 \<longrightarrow>
              h' x3v = (h x3v)[nat (ks pb) :=
                          0.5 * (h x3f ! nat (ks pb) + h x3f ! nat (ks pb + 1))] \<and>
              h' dx3v = (h dx3v)[nat (ks pb) := h dx3f ! nat (ks pb)]) \<and>
           h' x1v = fill (\<lambda>i. 0.5 * (h x1f ! nat i + h x1f ! nat (i + 1)))
                      (is' pb - NGHOST) (ie pb + NGHOST) (h x1v) \<and>
           h' dx1v = fill (\<lambda>i. h' x1v ! nat (i + 1) - h' x1v ! nat i)
                       (is' pb - NGHOST) (ie pb + NGHOST - 1) (h dx1v)"
proof -
  let ?h' = "after_Coordinates NGHOST junk pb h"
  have run: "Coordinates NGHOST junk pb h = Inr ?h'"
    using assms by (rule Coordinates_eq)
  have m: "midpoints xs = (\<lambda>i. 0.5 * (xs ! nat i + xs ! nat (i + 1)))" for xs :: "'a list"
    by (rule ext) (simp add: midpoints_def)
  have d: "differences xs = (\<lambda>i. xs ! nat (i + 1) - xs ! nat i)" for xs :: "'a list"
    by (rule ext) (simp add: differences_def)
  have a1: "?h' x1v = fill (\<lambda>i. 0.5 * (h x1f ! nat i + h x1f ! nat (i + 1)))
                      (is' pb - NGHOST) (ie pb + NGHOST) (h x1v)"
    "?h' dx1v = fill (\<lambda>i. ?h' x1v ! nat (i + 1) - ?h' x1v ! nat i)
                       (is' pb - NGHOST) (ie pb + NGHOST - 1) (h dx1v)"
    using after_Coordinates_axis1 [of NGHOST junk pb h] by (simp_all only: m d)
  have a2: "?h' x2v = (h x2v)[nat (js pb) :=
                          0.5 * (h x2f ! nat (js pb) + h x2f ! nat (js pb + 1))] \<and>
            ?h' dx2v = (h dx2v)[nat (js pb) := h dx2f ! nat (js pb)]" if "nx2 pb = 1"
    using after_Coordinates_axis2(3,4) [OF that, of NGHOST junk h]
    by (simp only: midpoints_def)
  have a3: "?h' x3v = (h x3v)[nat (ks pb) :=
                          0.5 * (h x3f ! nat (ks pb) + h x3f ! nat (ks pb + 1))] \<and>
            ?h' dx3v = (h dx3v)[nat (ks pb) := h dx3f ! nat (ks pb)]" if "nx3 pb = 1"
    using after_Coordinates_axis3(3,4) [OF that, of NGHOST junk h]
    by (simp only: midpoints_def)
  from run a1 a2 a3 show ?thesis by blast
qed

theorem no_extent_axes_witness:
  "populated 1 thin_block thin \<and> nx1 thin_block = 1 \<and> nx2 thin_block = 1 \<and>
   nx3 thin_block = 1 \<and>
   (\<exists>h'. Coordinates 1 (\<lambda>_. 0) thin_block thin = Inr h' \<and>
      h' x2v = [1] \<and> h' dx2v = [2] \<and> h' x3v = [3 / 2] \<and> h' dx3v = [3] \<and>
      h' x1v = [1 / 2, 2, 9 / 2] \<and> h' dx1v = [3 / 2, 5 / 2, 0])"
proof -
  from no_extent_axes [OF populated_thin, of "\<lambda>_. 0"]
  obtain h' where run: "Coordinates 1 (\<lambda>_. 0) thin_block thin = Inr h'"
    and a2: "h' x2v = (thin x2v)[nat 0 := 0.5 * (thin x2f ! nat 0 + thin x2f ! nat (0 + 1))]"
      "h' dx2v = (thin dx2v)[nat 0 := thin dx2f ! nat 0]"
    and a3: "h' x3v = (thin x3v)[nat 0 := 0.5 * (thin x3f ! nat 0 + thin x3f ! nat (0 + 1))]"
      "h' dx3v = (thin dx3v)[nat 0 := thin dx3f ! nat 0]"
    and x1: "h' x1v = fill (\<lambda>i. 0.5 * (thin x1f ! nat i + thin x1f ! nat (i + 1))) 0 2 (thin x1v)"
    and d1: "h' dx1v = fill (\<lambda>i. h' x1v ! nat (i + 1) - h' x1v ! nat i) 0 1 (thin dx1v)"
    by (auto simp: thin_block_def)
  have f: "thin x1f = [0, 1, 3, 6]" "thin x1v = [0, 0, 0]" "thin dx1v = [0, 0, 0]"
    "thin x2f = [0, 2]" "thin x2v = [0]" "thin dx2v = [0]" "thin dx2f = [2]"
    "thin x3f = [0, 3]" "thin x3v = [0]" "thin dx3v = [0]" "thin dx3f = [3]"
    by (simp_all add: thin_def)
  from x1 have v1: "h' x1v = [1 / 2, 2, 9 / 2]"
    by (simp add: f fill_def upt_rec)
  from d1 have w1: "h' dx1v = [3 / 2, 5 / 2, 0]"
    by (simp add: v1 f fill_def upt_rec)
  from a2 a3 have "h' x2v = [1]" "h' dx2v = [2]" "h' x3v = [3 / 2]" "h' dx3v = [3]"
    by (simp_all add: f)
  with run v1 w1 populated_thin show ?thesis
    by (simp add: thin_block_def)
qed

section \<open>The sum of the interior centre spacings\<close>

lemma sum_list_differences:
  fixes f :: "int \<Rightarrow> real"
  shows "sum_list (map (\<lambda>i. f (i + 1) - f i) [s..s + int n - 1]) = f (s + int n) - f s"
proof (induction n)
  case 0
  show ?case by simp
next
  case (Suc n)
  have "[s..s + int (Suc n) - 1] = [s..s + int n - 1] @ [s + int n]"
    using upto_rec2 [of s "s + int n"] by simp
  with Suc.IH show ?case by (simp add: add.commute add.left_commute)
qed

lemma extended_interior_sum:
  fixes h :: "real store"
  assumes ok: "extended_ok h xf xv dxv (s - NGHOST) (e + NGHOST)"
    and ng: "0 \<le> NGHOST" and se: "s \<le> e"
    and xv: "XV = fill (midpoints (h xf)) (s - NGHOST) (e + NGHOST) (h xv)"
    and dxv: "DXV = fill (differences XV) (s - NGHOST) (e + NGHOST - 1) (h dxv)"
  shows "sum_list (map (\<lambda>i. DXV ! nat i) [s..e - 1]) = XV ! nat e - XV ! nat s"
    and "XV ! nat e - XV ! nat s =
         0.5 * (h xf ! nat e + h xf ! nat (e + 1)) - 0.5 * (h xf ! nat s + h xf ! nat (s + 1))"
proof -
  note ent = extended_entries [OF ok xv dxv]
  have eq1: "map (\<lambda>i. DXV ! nat i) [s..e - 1] = map (\<lambda>i. XV ! nat (i + 1) - XV ! nat i) [s..e - 1]"
  proof (rule map_cong [OF refl])
    fix i assume "i \<in> set [s..e - 1]"
    with ng have "i \<in> {s - NGHOST..e + NGHOST - 1}" by simp
    with ent(2) show "DXV ! nat i = XV ! nat (i + 1) - XV ! nat i" by blast
  qed
  have eq2: "sum_list (map (\<lambda>i. XV ! nat (i + 1) - XV ! nat i) [s..e - 1]) =
             XV ! nat e - XV ! nat s"
    using sum_list_differences [of "\<lambda>i. XV ! nat i" s "nat (e - s)"] se by simp
  show "sum_list (map (\<lambda>i. DXV ! nat i) [s..e - 1]) = XV ! nat e - XV ! nat s"
    by (simp only: eq1 eq2)
  from ng se have "s \<in> {s - NGHOST..e + NGHOST}" "e \<in> {s - NGHOST..e + NGHOST}" by simp_all
  with ent(1) have "XV ! nat s = 0.5 * (h xf ! nat s + h xf ! nat (s + 1))"
    "XV ! nat e = 0.5 * (h xf ! nat e + h xf ! nat (e + 1))"
    by blast+
  then show "XV ! nat e - XV ! nat s =
         0.5 * (h xf ! nat e + h xf ! nat (e + 1)) - 0.5 * (h xf ! nat s + h xf ! nat (s + 1))"
    by (simp only:)
qed

lemma shortfall:
  fixes S :: real
  assumes "S = ve - vs" and "ve - vs = 0.5 * (a + b) - 0.5 * (c + d)"
  shows "b - c - S = (d - c) / 2 + (b - a) / 2"
  using assms by (simp add: field_simps)

text \<open>
  Claim C8, as stated, fails, and by more than rounding. On the scenario of the
  specification (faces \<open>0, 1, 2, 3, 4\<close>, interior indices \<open>0\<close> to \<open>3\<close>) the constructor
  stores the spacings \<open>1, 1, 1\<close> at the indices \<open>0\<close> to \<open>2\<close>, whose sum is \<open>3\<close>, while the
  extent of the block is \<open>4 - 0 = 4\<close>. On the block with the single interior cell \<open>1\<close>
  and faces \<open>0, 1, 3, 6\<close> the sum is empty, and the one spacing \<open>dx1v(1)\<close> is \<open>2.5\<close>, while
  the extent is \<open>3 - 1 = 2\<close>. All values are computed without rounding in binary floating
  point as well.
\<close>

theorem interior_sum_counterexample:
  "map_sum id (\<lambda>h'. (interior_sum dx1v (is' scenario_block) (ie scenario_block) h',
                      h' x1f ! nat (ie scenario_block + 1) - h' x1f ! nat (is' scenario_block)))
     (Coordinates 0 (\<lambda>_. 0) scenario_block scenario) = Inr (3, 4) \<and>
   map_sum id (\<lambda>h'. (interior_sum dx1v (is' thin_block) (ie thin_block) h',
                      h' dx1v ! nat (is' thin_block),
                      h' x1f ! nat (ie thin_block + 1) - h' x1f ! nat (is' thin_block)))
     (Coordinates 1 (\<lambda>_. 0) thin_block thin) = Inr (0, 5 / 2, 2)"
proof -
  have b: "is' scenario_block = 0" "ie scenario_block = 3"
    by (simp_all add: scenario_block_def)
  have f: "scenario x1f = [0, 1, 2, 3, 4]" "scenario x1v = [0, 0, 0, 0]"
    "scenario dx1v = [0, 0, 0, 0]"
    by (simp_all add: scenario_def)
  have x: "after_Coordinates 0 (\<lambda>_. 0) scenario_block scenario x1v = [1 / 2, 3 / 2, 5 / 2, 7 / 2]"
    by (simp add: after_Coordinates_axis1(1) b f fill_def upt_rec midpoints_def)
  have d: "after_Coordinates 0 (\<lambda>_. 0) scenario_block scenario dx1v = [1, 1, 1, 0]"
    by (simp add: after_Coordinates_axis1(2) x b f fill_def upt_rec differences_def)
  have xf: "after_Coordinates 0 (\<lambda>_. 0) scenario_block scenario x1f = [0, 1, 2, 3, 4]"
    by (simp add: after_Coordinates_other f)
  have u: "[0..2::int] = [0, 1, 2]" by (simp add: upto_rec1)
  have one: "map_sum id (\<lambda>h'. (interior_sum dx1v (is' scenario_block) (ie scenario_block) h',
                      h' x1f ! nat (ie scenario_block + 1) - h' x1f ! nat (is' scenario_block)))
     (Coordinates 0 (\<lambda>_. 0) scenario_block scenario) = Inr (3, 4)"
    by (simp add: Coordinates_eq [OF populated_scenario] interior_sum_def b d xf u)
  have b': "is' thin_block = 1" "ie thin_block = 1"
    by (simp_all add: thin_block_def)
  have f': "thin x1f = [0, 1, 3, 6]" "thin x1v = [0, 0, 0]" "thin dx1v = [0, 0, 0]"
    by (simp_all add: thin_def)
  have x': "after_Coordinates 1 (\<lambda>_. 0) thin_block thin x1v = [1 / 2, 2, 9 / 2]"
    by (simp add: after_Coordinates_axis1(1) b' f' fill_def upt_rec midpoints_def)
  have d': "after_Coordinates 1 (\<lambda>_. 0) thin_block thin dx1v = [3 / 2, 5 / 2, 0]"
    by (simp add: after_Coordinates_axis1(2) x' b' f' fill_def upt_rec differences_def)
  have xf': "after_Coordinates 1 (\<lambda>_. 0) thin_block thin x1f = [0, 1, 3, 6]"
    by (simp add: after_Coordinates_other f')
  have two: "map_sum id (\<lambda>h'. (interior_sum dx1v (is' thin_block) (ie thin_block) h',
                      h' dx1v ! nat (is' thin_block),
                      h' x1f ! nat (ie thin_block + 1) - h' x1f ! nat (is' thin_block)))
     (Coordinates 1 (\<lambda>_. 0) thin_block thin) = Inr (0, 5 / 2, 2)"
    by (simp add: Coordinates_eq [OF populated_thin] interior_sum_def b' d' xf')
  from one two show ?thesis ..
qed

text \<open>
  Claim C8, amended. In exact arithmetic, with a ghost width that is not negative and
  on a block whose arrays are allocated: along axis 1, and along each of the axes 2 and 3
  that is not of unit extent, if the first interior index is at most the last, the sum of
  the centre spacings from the first to one before the last interior index is the
  distance between the last and the first interior cell centre,
  \<open>xv(e) - xv(s) = 0.5 * (xf(e) + xf(e+1)) - 0.5 * (xf(s) + xf(s+1))\<close>. It is short of
  the extent \<open>xf(e+1) - xf(s)\<close> by half the width of the first interior cell plus half
  the width of the last.
\<close>

theorem interior_sum_centres:
  fixes h :: "real store"
  assumes "populated NGHOST pb h" and "0 \<le> NGHOST"
  shows "\<exists>h'. Coordinates NGHOST junk pb h = Inr h' \<and>
           (is' pb \<le> ie pb \<longrightarrow>
              interior_sum dx1v (is' pb) (ie pb) h' = h' x1v ! nat (ie pb) - h' x1v ! nat (is' pb) \<and>
              (h x1f ! nat (ie pb + 1) - h x1f ! nat (is' pb)) -
                interior_sum dx1v (is' pb) (ie pb) h' =
                (h x1f ! nat (is' pb + 1) - h x1f ! nat (is' pb)) / 2 +
                (h x1f ! nat (ie pb + 1) - h x1f ! nat (ie pb)) / 2) \<and>
           (nx2 pb \<noteq> 1 \<and> js pb \<le> je pb \<longrightarrow>
              interior_sum dx2v (js pb) (je pb) h' = h' x2v ! nat (je pb) - h' x2v ! nat (js pb) \<and>
              (h x2f ! nat (je pb + 1) - h x2f ! nat (js pb)) -
                interior_sum dx2v (js pb) (je pb) h' =
                (h x2f ! nat (js pb + 1) - h x2f ! nat (js pb)) / 2 +
                (h x2f ! nat (je pb + 1) - h x2f ! nat (je pb)) / 2) \<and>
           (nx3 pb \<noteq> 1 \<and> ks pb \<le> ke pb \<longrightarrow>
              interior_sum dx3v (ks pb) (ke pb) h' = h' x3v ! nat (ke pb) - h' x3v ! nat (ks pb) \<and>
              (h x3f ! nat (ke pb + 1) - h x3f ! nat (ks pb)) -
                interior_sum dx3v (ks pb) (ke pb) h' =
                (h x3f ! nat (ks pb + 1) - h x3f ! nat (ks pb)) / 2 +
                (h x3f ! nat (ke pb + 1) - h x3f ! nat (ke pb)) / 2)"
proof -
  let ?h' = "after_Coordinates NGHOST junk pb h"
  have run: "Coordinates NGHOST junk pb h = Inr ?h'"
    using assms(1) by (rule Coordinates_eq)
  have a1: "interior_sum dx1v (is' pb) (ie pb) ?h' = ?h' x1v ! nat (ie pb) - ?h' x1v ! nat (is' pb) \<and>
              (h x1f ! nat (ie pb + 1) - h x1f ! nat (is' pb)) -
                interior_sum dx1v (is' pb) (ie pb) ?h' =
                (h x1f ! nat (is' pb + 1) - h x1f ! nat (is' pb)) / 2 +
                (h x1f ! nat (ie pb + 1) - h x1f ! nat (ie pb)) / 2"
    if le: "is' pb \<le> ie pb"
  proof -
    have ok: "extended_ok h x1f x1v dx1v (is' pb - NGHOST) (ie pb + NGHOST)"
      using assms(1) by (simp add: populated_def)
    note s = extended_interior_sum [OF ok assms(2) le
        after_Coordinates_axis1 [of NGHOST junk pb h]]
    have "interior_sum dx1v (is' pb) (ie pb) ?h' = ?h' x1v ! nat (ie pb) - ?h' x1v ! nat (is' pb)"
      by (simp only: interior_sum_def s(1))
    with s(2) show ?thesis by (intro conjI) (simp_all only: shortfall)
  qed
  have a2: "interior_sum dx2v (js pb) (je pb) ?h' = ?h' x2v ! nat (je pb) - ?h' x2v ! nat (js pb) \<and>
              (h x2f ! nat (je pb + 1) - h x2f ! nat (js pb)) -
                interior_sum dx2v (js pb) (je pb) ?h' =
                (h x2f ! nat (js pb + 1) - h x2f ! nat (js pb)) / 2 +
                (h x2f ! nat (je pb + 1) - h x2f ! nat (je pb)) / 2"
    if ne: "nx2 pb \<noteq> 1" and le: "js pb \<le> je pb"
  proof -
    have ok: "extended_ok h x2f x2v dx2v (js pb - NGHOST) (je pb + NGHOST)"
      using assms(1) ne by (simp add: populated_def)
    note s = extended_interior_sum [OF ok assms(2) le
        after_Coordinates_axis2(1) [OF ne, of NGHOST junk h]
        after_Coordinates_axis2(2) [OF ne, of NGHOST junk h]]
    have "interior_sum dx2v (js pb) (je pb) ?h' = ?h' x2v ! nat (je pb) - ?h' x2v ! nat (js pb)"
      by (simp only: interior_sum_def s(1))
    with s(2) show ?thesis by (intro conjI) (simp_all only: shortfall)
  qed
  have a3: "interior_sum dx3v (ks pb) (ke pb) ?h' = ?h' x3v ! nat (ke pb) - ?h' x3v ! nat (ks pb) \<and>
              (h x3f ! nat (ke pb + 1) - h x3f ! nat (ks pb)) -
                interior_sum dx3v (ks pb) (ke pb) ?h' =
                (h x3f ! nat (ks pb + 1) - h x3f ! nat (ks pb)) / 2 +
                (h x3f ! nat (ke pb + 1) - h x3f ! nat (ke pb)) / 2"
    if ne: "nx3 pb \<noteq> 1" and le: "ks pb \<le> ke pb"
  proof -
    have ok: "extended_ok h x3f x3v dx3v (ks pb - NGHOST) (ke pb + NGHOST)"
      using assms(1) ne by (simp add: populated_def)
    note s = extended_interior_sum [OF ok assms(2) le
        after_Coordinates_axis3(1) [OF ne, of NGHOST junk h]
        after_Coordinates_axis3(2) [OF ne, of NGHOST junk h]]
    have "interior_sum dx3v (ks pb) (ke pb) ?h' = ?h' x3v ! nat (ke pb) - ?h' x3v ! nat (ks pb)"
      by (simp only: interior_sum_def s(1))
    with s(2) show ?thesis by (intro conjI) (simp_all only: shortfall)
  qed
  from run a1 a2 a3 show ?thesis by blast
qed

theorem interior_sum_centres_witness:
  "populated 1 cube_block cube \<and> (0::int) \<le> 1 \<and> is' cube_block \<le> ie cube_block \<and>
   nx2 cube_block \<noteq> 1 \<and> js cube_block \<le> je cube_block \<and>
   nx3 cube_block \<noteq> 1 \<and> ks cube_block \<le> ke cube_block \<and>
   (\<exists>h'. Coordinates 1 (\<lambda>_. 0) cube_block cube = Inr h' \<and>
      interior_sum dx1v 1 2 h' = 1 \<and> cube x1f ! 3 - cube x1f ! 1 = 2 \<and>
      interior_sum dx2v 1 2 h' = 2 \<and> cube x2f ! 3 - cube x2f ! 1 = 4 \<and>
      interior_sum dx3v 1 2 h' = 3 \<and> cube x3f ! 3 - cube x3f ! 1 = 6)"
proof -
  have ng: "(0::int) \<le> 1" by simp
  from interior_sum_centres [OF populated_cube ng, of "\<lambda>_. 0"]
  obtain h' where run: "Coordinates 1 (\<lambda>_. 0) cube_block cube = Inr h'"
    and s1: "(cube x1f ! 3 - cube x1f ! 1) - interior_sum dx1v 1 2 h' =
             (cube x1f ! 2 - cube x1f ! 1) / 2 +
             (cube x1f ! 3 - cube x1f ! 2) / 2"
    and s2: "(cube x2f ! 3 - cube x2f ! 1) - interior_sum dx2v 1 2 h' =
             (cube x2f ! 2 - cube x2f ! 1) / 2 +
             (cube x2f ! 3 - cube x2f ! 2) / 2"
    and s3: "(cube x3f ! 3 - cube x3f ! 1) - interior_sum dx3v 1 2 h' =
             (cube x3f ! 2 - cube x3f ! 1) / 2 +
             (cube x3f ! 3 - cube x3f ! 2) / 2"
    by (auto simp: cube_block_def)
  from s1 s2 s3 have "interior_sum dx1v 1 2 h' = 1" "interior_sum dx2v 1 2 h' = 2"
    "interior_sum dx3v 1 2 h' = 3"
    by simp_all
  with run populated_cube show ?thesis
    by (simp add: cube_block_def)
qed

section \<open>No validation in the constructor\<close>

text \<open>
  Claim C9, as stated, fails: the constructor has no check of the block. On a block
  whose index bounds are inverted along every axis, and with no array allocated at all,
  it runs no loop iteration, allocates the two scratch arrays and completes.
\<close>

theorem inverted_block_counterexample:
  "Coordinates 1 (\<lambda>_. 0) inverted_block unallocated =
     Inr (unallocated(face_area := [0, 0, 0, 0, 0, 0], cell_volume := [0, 0, 0, 0, 0, 0]))"
  by (simp add: Coordinates_def extended_def inverted_block_def for_loop_empty
      NewAthenaArray_def upt_rec)

text \<open>
  Claim C9, amended. The constructor checks nothing. Whenever the entries it touches are
  allocated it completes, whatever the face arrays hold. With index bounds inverted
  along an axis (\<open>e + NGHOST < s - NGHOST\<close>) the loops of that axis run no iteration; with
  all three axes so inverted (axes 2 and 3 not of unit extent), a scratch length that is
  not negative and no overflow in the bounds, it completes on every store, allocated or
  not, and changes nothing but the two scratch arrays.
\<close>

theorem constructor_checks_nothing:
  "(populated NGHOST pb h \<longrightarrow> (\<exists>h'. Coordinates NGHOST junk pb h = Inr h')) \<and>
   (ie pb + NGHOST < is' pb - NGHOST \<and>
    nx2 pb \<noteq> 1 \<and> je pb + NGHOST < js pb - NGHOST \<and>
    nx3 pb \<noteq> 1 \<and> ke pb + NGHOST < ks pb - NGHOST \<and> 0 \<le> nx1 pb + 2 * NGHOST \<and>
    no_overflow NGHOST pb \<longrightarrow>
    Coordinates NGHOST junk pb h =
      Inr (h(face_area := map junk [0..<nat (nx1 pb + 2 * NGHOST)],
             cell_volume := map junk [0..<nat (nx1 pb + 2 * NGHOST)])))"
proof (intro conjI impI)
  assume "populated NGHOST pb h"
  then show "\<exists>h'. Coordinates NGHOST junk pb h = Inr h'"
    by (auto dest: Coordinates_eq)
next
  assume a: "ie pb + NGHOST < is' pb - NGHOST \<and>
    nx2 pb \<noteq> 1 \<and> je pb + NGHOST < js pb - NGHOST \<and>
    nx3 pb \<noteq> 1 \<and> ke pb + NGHOST < ks pb - NGHOST \<and> 0 \<le> nx1 pb + 2 * NGHOST \<and>
    no_overflow NGHOST pb"
  have skip: "extended xf xv dxv lo hi h0 = Inr h0" if "hi < lo"
    for xf xv dxv lo hi and h0 :: "'a store"
    using that by (simp add: extended_def for_loop_empty)
  from a show "Coordinates NGHOST junk pb h =
      Inr (h(face_area := map junk [0..<nat (nx1 pb + 2 * NGHOST)],
             cell_volume := map junk [0..<nat (nx1 pb + 2 * NGHOST)]))"
    by (simp add: Coordinates_def skip NewAthenaArray_def)
qed

theorem constructor_checks_nothing_witness:
  "populated 1 cube_block cube \<and> (\<exists>h'. Coordinates 1 (\<lambda>_. 0) cube_block cube = Inr h') \<and>
   ie inverted_block + 1 < is' inverted_block - 1 \<and>
   nx2 inverted_block \<noteq> 1 \<and> je inverted_block + 1 < js inverted_block - 1 \<and>
   nx3 inverted_block \<noteq> 1 \<and> ke inverted_block + 1 < ks inverted_block - 1 \<and>
   0 \<le> nx1 inverted_block + 2 * 1 \<and> no_overflow 1 inverted_block \<and>
   Coordinates 1 (\<lambda>_. 7) inverted_block cube =
     Inr (cube(face_area := [7, 7, 7, 7, 7, 7], cell_volume := [7, 7, 7, 7, 7, 7]))"
proof -
  have i: "ie inverted_block + 1 < is' inverted_block - 1 \<and>
    nx2 inverted_block \<noteq> 1 \<and> je inverted_block + 1 < js inverted_block - 1 \<and>
    nx3 inverted_block \<noteq> 1 \<and> ke inverted_block + 1 < ks inverted_block - 1 \<and>
    0 \<le> nx1 inverted_block + 2 * 1 \<and> no_overflow 1 inverted_block"
    by (simp add: inverted_block_def no_overflow_def int_ok_def)
  have n: "nat (nx1 inverted_block + 2 * 1) = 6" by (simp add: inverted_block_def)
  from constructor_checks_nothing [of 1 cube_block cube "\<lambda>_. 0"] populated_cube
  have c1: "\<exists>h'. Coordinates 1 (\<lambda>_. 0) cube_block cube = Inr h'" by blast
  from constructor_checks_nothing [of 1 inverted_block cube "\<lambda>_. 7"] i
  have "Coordinates 1 (\<lambda>_. 7) inverted_block cube =
      Inr (cube(face_area := map (\<lambda>_. 7) [0..<nat (nx1 inverted_block + 2 * 1)],
             cell_volume := map (\<lambda>_. 7) [0..<nat (nx1 inverted_block + 2 * 1)]))"
    by blast
  then have c2: "Coordinates 1 (\<lambda>_. 7) inverted_block cube =
     Inr (cube(face_area := [7, 7, 7, 7, 7, 7], cell_volume := [7, 7, 7, 7, 7, 7]))"
    by (simp only: n) (simp add: upt_rec)
  from populated_cube c1 i c2 show ?thesis by blast
qed

end
